theory Spec2Isabelle
  imports Complex_Main
begin

section \<open>Data model\<close>

text \<open>
  JavaScript numbers are modelled as exact reals: every theorem below is about the
  arithmetic the source writes down, not about IEEE rounding.  A position or velocity
  object \<open>{x, y, z}\<close> is a record of three reals.
\<close>

record vec3 =
  vec_x :: real
  vec_y :: real
  vec_z :: real

text \<open>The nine lane names of \<open>PLATFORM_TYPES\<close> (config.js), in the order of that array.\<close>

datatype lane =
  FarFarLeft | FarLeft | Left | CenterLeft | Center | CenterRight | Right | FarRight | FarFarRight

text \<open>\<open>bounceEffect\<close> is \<open>"forward"\<close>, \<open>"backward"\<close> or \<open>null\<close> (\<open>None\<close>).\<close>

datatype bounce = Forward | Backward

text \<open>\<open>PLATFORM_MOVEMENT.types\<close>, in the order of that array.\<close>

datatype movement = Horizontal | Vertical | Diagonal | Orbital | Figure8 | Pendulum

datatype axis = AxisX | AxisY

text \<open>
  A platform is the mesh position together with its \<open>userData\<close> bag.  Properties that the
  source attaches only to moving platforms are fields that are read only under
  \<open>isMovingPlatform\<close>; \<open>lastPosition\<close> is an option because the ball code tests it for
  presence.  A boolean property that is absent from \<open>userData\<close> (as on the start platform)
  is \<open>False\<close>, which is how every truthiness test of the source reads \<open>undefined\<close>.
\<close>

record platform =
  position :: vec3
  width :: real
  depth :: real
  radius :: real
  isRoundPlatform :: bool
  isTrampoline :: bool
  isSlowDownTrampoline :: bool
  bounceEffect :: "bounce option"
  laneType :: lane
  isRedFlagPlatform :: bool
  isMovingPlatform :: bool
  movementType :: "movement option"
  originalPosition :: vec3
  movementProgress :: real
  movementSpeed :: real
  lastPosition :: "vec3 option"
  movementRange :: real
  movementRangeXY :: "real \<times> real"
  diagonalDirection :: real
  orbitalRadius :: real
  figure8Scale :: "real \<times> real"
  pendulumLength :: real
  pendulumAxis :: axis

section \<open>Configuration (config.js)\<close>

text \<open>
  \<open>GAME_SETTINGS\<close>, with the entries the simulation reads.  The object has no \<open>minSpeed\<close>
  entry although \<open>applyPlatformEffects\<close> reads \<open>GAME_SETTINGS.minSpeed\<close>: the read yields
  \<open>undefined\<close>, which is \<open>None\<close> here.
\<close>

record game_settings =
  initialSpeed :: real
  gravity :: real
  jumpForce :: real
  maxJumpForce :: real
  platformsPerLevel :: nat
  platformSpawnZ :: real
  jetpackBoostForce :: real
  distanceForNextLevel :: real
  minSpeed :: "real option"

definition GAME_SETTINGS :: game_settings where
  "GAME_SETTINGS =
     \<lparr>initialSpeed = 0.15, gravity = 0.02, jumpForce = 0.3, maxJumpForce = 0.4,
      platformsPerLevel = 20, platformSpawnZ = - 1000, jetpackBoostForce = 0.015,
      distanceForNextLevel = 500, minSpeed = None\<rparr>"

definition PLATFORM_TYPES :: "lane list" where
  "PLATFORM_TYPES =
     [FarFarLeft, FarLeft, Left, CenterLeft, Center, CenterRight, Right, FarRight, FarFarRight]"

record platform_movement =
  baseSpeed :: real
  horizontalRange :: real
  verticalRange :: real
  diagonalRange :: real
  pmOrbitalRadius :: real
  pmFigure8Scale :: "real \<times> real"
  pmPendulumLength :: real
  types :: "movement list"

definition PLATFORM_MOVEMENT :: platform_movement where
  "PLATFORM_MOVEMENT =
     \<lparr>baseSpeed = 0.02, horizontalRange = 10, verticalRange = 5, diagonalRange = 7,
      pmOrbitalRadius = 8, pmFigure8Scale = (10, 5), pmPendulumLength = 12,
      types = [Horizontal, Vertical, Diagonal, Orbital, Figure8, Pendulum]\<rparr>"

section \<open>Ball state (entities/ball.js)\<close>

text \<open>The module-level variables of the ball entity, with the ball's position and rotation.\<close>

record ball_state =
  ballPosition :: vec3
  ballRotation :: vec3
  ballVelocity :: vec3
  isJumping :: bool
  hasDoubleJumped :: bool
  jumpChargeTime :: real
  airEntryMethod :: string
  wasOnPlatform :: bool
  extraJumps :: int

text \<open>\<open>createBall\<close> puts the ball at \<open>(0, 10, 0)\<close>; the flags start as declared.\<close>

definition initialBall :: ball_state where
  "initialBall =
     \<lparr>ballPosition = \<lparr>vec_x = 0, vec_y = 10, vec_z = 0\<rparr>,
      ballRotation = \<lparr>vec_x = 0, vec_y = 0, vec_z = 0\<rparr>,
      ballVelocity = \<lparr>vec_x = 0, vec_y = 0, vec_z = 0\<rparr>,
      isJumping = False, hasDoubleJumped = False, jumpChargeTime = 0,
      airEntryMethod = [], wasOnPlatform = False, extraJumps = 0\<rparr>"

definition resetBallState :: "ball_state \<Rightarrow> ball_state" where
  "resetBallState b = initialBall"

definition addExtraJumps :: "int \<Rightarrow> ball_state \<Rightarrow> ball_state" where
  "addExtraJumps amount b = b\<lparr>extraJumps := extraJumps b + amount\<rparr>"

section \<open>Platform collision (entities/platform.js, bounce-effect variant)\<close>

text \<open>
  The test both \<open>checkPlatformCollision\<close> and \<open>getCurrentPlatform\<close> make on one platform:
  a disc is hit inside 0.9 of its radius, a rectangle inside its bounds widened by 0.8 of
  the ball radius; both need the ball's underside within 0.5 of the platform top and a
  vertical velocity that is not upward.  The ball radius is the constant 1.0.
\<close>

definition collisionDetected :: "vec3 \<Rightarrow> vec3 \<Rightarrow> platform \<Rightarrow> bool" where
  "collisionDetected bp bv p =
     (let ballRadius = 1.0 in
      if isRoundPlatform p then
        (let dx = vec_x bp - vec_x (position p);
             dz = vec_z bp - vec_z (position p);
             distanceSquared = dx * dx + dz * dz;
             platformRadius = radius p
         in distanceSquared \<le> platformRadius * 0.9 * (platformRadius * 0.9)
            \<and> \<bar>vec_y bp - ballRadius - (vec_y (position p) + 0.5)\<bar> \<le> 0.5
            \<and> vec_y bv \<le> 0)
      else
        (let minX = vec_x (position p) - width p / 2;
             maxX = vec_x (position p) + width p / 2;
             minZ = vec_z (position p) - depth p / 2;
             maxZ = vec_z (position p) + depth p / 2;
             top = vec_y (position p) + 0.5
         in vec_x bp + ballRadius * 0.8 \<ge> minX
            \<and> vec_x bp - ballRadius * 0.8 \<le> maxX
            \<and> vec_z bp + ballRadius * 0.8 \<ge> minZ
            \<and> vec_z bp - ballRadius * 0.8 \<le> maxZ
            \<and> \<bar>vec_y bp - ballRadius - top\<bar> \<le> 0.5
            \<and> vec_y bv \<le> 0))"

text \<open>
  The object \<open>checkPlatformCollision\<close> returns.  Without a collision the source leaves
  \<open>platformY\<close> and \<open>ballRadius\<close> out; they are 0 here and are read only when
  \<open>onPlatform\<close> holds.  \<open>infoIsTrampoline\<close> is the property \<open>isTrampoline\<close> of that
  object: \<open>None\<close> when the object has no such property, so that reading it yields
  \<open>undefined\<close>.
\<close>

record platformInfo =
  onPlatform :: bool
  infoBounceEffect :: "bounce option"
  infoIsTrampoline :: "bool option"
  infoIsRedFlagPlatform :: bool
  platformY :: real
  ballRadius :: real

text \<open>
  \<open>checkPlatformCollision\<close> of the bounce-effect variant: the object carries
  \<open>bounceEffect\<close> and \<open>isRedFlagPlatform\<close>, and no \<open>isTrampoline\<close>.
\<close>

fun checkPlatformCollision :: "platform list \<Rightarrow> vec3 \<Rightarrow> vec3 \<Rightarrow> platformInfo" where
  "checkPlatformCollision [] bp bv =
     \<lparr>onPlatform = False, infoBounceEffect = None, infoIsTrampoline = None,
      infoIsRedFlagPlatform = False, platformY = 0, ballRadius = 0\<rparr>"
| "checkPlatformCollision (p # ps) bp bv =
     (if collisionDetected bp bv p
      then \<lparr>onPlatform = True, infoBounceEffect = bounceEffect p, infoIsTrampoline = None,
            infoIsRedFlagPlatform = isRedFlagPlatform p,
            platformY = vec_y (position p) + 0.5, ballRadius = 1.0\<rparr>
      else checkPlatformCollision ps bp bv)"


fun getCurrentPlatform :: "platform list \<Rightarrow> vec3 \<Rightarrow> vec3 \<Rightarrow> platform option" where
  "getCurrentPlatform [] bp bv = None"
| "getCurrentPlatform (p # ps) bp bv =
     (if collisionDetected bp bv p then Some p else getCurrentPlatform ps bp bv)"

text \<open>\<open>isOnPlatform\<close> of systems/collision.js.\<close>

definition isOnPlatform :: "platform list \<Rightarrow> ball_state \<Rightarrow> bool" where
  "isOnPlatform ps b = onPlatform (checkPlatformCollision ps (ballPosition b) (ballVelocity b))"

section \<open>Platform effects on the ball (entities/ball.js)\<close>

text \<open>
  \<open>applyPlatformEffects\<close> returns the new base speed and mutates the ball; here it returns
  both.  In the \<open>"backward"\<close> case the source compares the lowered speed with
  \<open>GAME_SETTINGS.minSpeed\<close>; a comparison with \<open>undefined\<close> is false, so without that entry
  the lowered speed is kept.
\<close>

definition applyPlatformEffects :: "platformInfo \<Rightarrow> real \<Rightarrow> ball_state \<Rightarrow> real \<times> ball_state" where
  "applyPlatformEffects info speed b =
     (if onPlatform info \<and> vec_y (ballVelocity b) < 0 then
        (let b1 = b\<lparr>ballVelocity := (ballVelocity b)\<lparr>vec_y := 0\<rparr>,
                    isJumping := False, hasDoubleJumped := False, airEntryMethod := []\<rparr>
         in case infoBounceEffect info of
              Some Forward \<Rightarrow>
                (speed + 0.025,
                 b1\<lparr>ballVelocity := (ballVelocity b1)
                        \<lparr>vec_y := maxJumpForce GAME_SETTINGS * 1.5,
                         vec_z := vec_z (ballVelocity b1) - 0.1\<rparr>,
                    isJumping := False, airEntryMethod := ''bounced'',
                    hasDoubleJumped := False\<rparr>)
            | Some Backward \<Rightarrow>
                (let speed1 = speed - 0.05;
                     speed2 = (case minSpeed GAME_SETTINGS of
                                 None \<Rightarrow> speed1
                               | Some m \<Rightarrow> if speed1 < m then m else speed1)
                 in (speed2,
                     b1\<lparr>ballVelocity := (ballVelocity b1)
                            \<lparr>vec_y := maxJumpForce GAME_SETTINGS * 1.5,
                             vec_z := vec_z (ballVelocity b1) + 0.2\<rparr>,
                        isJumping := False, airEntryMethod := ''bounced'',
                        hasDoubleJumped := False\<rparr>))
            | None \<Rightarrow> (speed, b1))
      else (speed, b))"

section \<open>Collision handling (systems/collision.js)\<close>

text \<open>A JavaScript truthiness test of a property that may be absent.\<close>

fun truthy :: "bool option \<Rightarrow> bool" where
  "truthy None = False"
| "truthy (Some v) = v"

text \<open>
  The result of \<open>handlePlatformCollisions\<close>: the returned object (\<open>onPlatform\<close>,
  \<open>speed\<close>), whether the callback \<open>onRedFlagPlatformReached\<close> was invoked, and the ball
  after the call.
\<close>

record collision_result =
  resultOnPlatform :: bool
  resultSpeed :: real
  redFlagCallbackInvoked :: bool
  resultBall :: ball_state

text \<open>
  The body of \<open>handlePlatformCollisions\<close> after the collision check: the platform effects,
  the snap to the platform top, and the callback under the guard
  \<open>platformInfo.isRedFlagPlatform && platformInfo.isTrampoline\<close>.
\<close>

definition handleCollisionInfo :: "platformInfo \<Rightarrow> real \<Rightarrow> ball_state \<Rightarrow> collision_result" where
  "handleCollisionInfo info speed b =
     (let (newSpeed, b1) = applyPlatformEffects info speed b
      in if onPlatform info then
           \<lparr>resultOnPlatform = onPlatform info, resultSpeed = newSpeed,
            redFlagCallbackInvoked = (infoIsRedFlagPlatform info \<and> truthy (infoIsTrampoline info)),
            resultBall = b1\<lparr>ballPosition := (ballPosition b1)\<lparr>vec_y := platformY info + ballRadius info\<rparr>\<rparr>\<rparr>
         else
           \<lparr>resultOnPlatform = onPlatform info, resultSpeed = newSpeed,
            redFlagCallbackInvoked = False, resultBall = b1\<rparr>)"

definition handlePlatformCollisions :: "platform list \<Rightarrow> real \<Rightarrow> ball_state \<Rightarrow> collision_result" where
  "handlePlatformCollisions ps speed b =
     handleCollisionInfo (checkPlatformCollision ps (ballPosition b) (ballVelocity b)) speed b"


section \<open>Jumping (entities/ball.js, systems/controls.js)\<close>

definition jump :: "bool \<Rightarrow> bool \<Rightarrow> ball_state \<Rightarrow> ball_state" where
  "jump isDoubleJump isExtraJump b =
     (if isExtraJump then
        b\<lparr>ballVelocity := (ballVelocity b)\<lparr>vec_y := jumpForce GAME_SETTINGS * 1.0\<rparr>,
          extraJumps := extraJumps b - 1\<rparr>
      else if isDoubleJump then
        b\<lparr>ballVelocity := (ballVelocity b)\<lparr>vec_y := jumpForce GAME_SETTINGS * 1.0\<rparr>,
          hasDoubleJumped := True\<rparr>
      else
        (let b1 = b\<lparr>isJumping := True, hasDoubleJumped := False,
                    ballVelocity := (ballVelocity b)\<lparr>vec_y := jumpForce GAME_SETTINGS\<rparr>,
                    jumpChargeTime := 0\<rparr>
         in if wasOnPlatform b1 then b1\<lparr>airEntryMethod := ''jumped''\<rparr> else b1))"

text \<open>
  The jump part of the space-bar case of \<open>onKeyDown\<close> (the touch handler has the same
  chain), reached when the ball is released, no grab is active and the jetpack has no
  fuel.  \<open>keysSpace\<close> is \<open>keys.space\<close>, \<open>onPlat\<close> the answer of \<open>isOnPlatform()\<close>.
  \<open>jumpBranch\<close> names the call of \<open>jump\<close> the chain reaches.
\<close>

datatype jump_kind = NoJump | FirstJump | DoubleJump | ExtraJump

definition jumpBranch :: "bool \<Rightarrow> bool \<Rightarrow> ball_state \<Rightarrow> jump_kind" where
  "jumpBranch keysSpace onPlat b =
     (if \<not> keysSpace \<and> \<not> isJumping b \<and> onPlat then FirstJump
      else if \<not> keysSpace \<and> \<not> onPlat then
        (if \<not> isJumping b \<and> airEntryMethod b = ''fell'' then FirstJump
         else if \<not> hasDoubleJumped b then
           (if airEntryMethod b = ''jumped'' \<or> airEntryMethod b = ''bounced''
               \<or> airEntryMethod b = ''rolled'' then DoubleJump
            else if airEntryMethod b = ''fell'' \<and> isJumping b then DoubleJump
            else NoJump)
         else if hasDoubleJumped b \<and> extraJumps b > 0 then ExtraJump
         else NoJump)
      else NoJump)"

definition onKeyDownJump :: "bool \<Rightarrow> bool \<Rightarrow> ball_state \<Rightarrow> bool \<times> ball_state" where
  "onKeyDownJump keysSpace onPlat b =
     (case jumpBranch keysSpace onPlat b of
        FirstJump \<Rightarrow> (True, jump False False b)
      | DoubleJump \<Rightarrow> (True, jump True False b)
      | ExtraJump \<Rightarrow> (True, jump False True b)
      | NoJump \<Rightarrow> (keysSpace, b))"

section \<open>Ball physics (entities/ball.js)\<close>

text \<open>The input flags \<open>updateBallPosition\<close> reads.\<close>

record keys =
  keyLeft :: bool
  keyRight :: bool
  keySpace :: bool

definition clamp :: "real \<Rightarrow> real \<Rightarrow> real \<Rightarrow> real" where
  "clamp v lo hi = max lo (min hi v)"

text \<open>
  First block of \<open>updateBallPosition\<close>: a ball that was on a platform at the last tick, is
  on none now and is not jumping has rolled or fallen off; its double-jump flag is
  cleared.  Then \<open>wasOnPlatform\<close> is refreshed.
\<close>

definition detectAirEntry :: "bool \<Rightarrow> ball_state \<Rightarrow> ball_state" where
  "detectAirEntry onPlatformNow b =
     (let b1 = (if wasOnPlatform b \<and> \<not> onPlatformNow \<and> \<not> isJumping b then
                  b\<lparr>airEntryMethod :=
                       (if \<bar>vec_x (ballVelocity b)\<bar> > 0.01 then ''rolled'' else ''fell''),
                    hasDoubleJumped := False\<rparr>
                else b)
      in b1\<lparr>wasOnPlatform := onPlatformNow\<rparr>)"

text \<open>
  Second block: on a platform, the ball takes over the movement of the platform it stands
  on, the difference between the platform's position and its cached \<open>lastPosition\<close>.
\<close>

definition rideMovingPlatform :: "bool \<Rightarrow> platform list \<Rightarrow> ball_state \<Rightarrow> ball_state" where
  "rideMovingPlatform onPlatformNow ps b =
     (if onPlatformNow then
        (case getCurrentPlatform ps (ballPosition b) (ballVelocity b) of
           None \<Rightarrow> b
         | Some currentPlatform \<Rightarrow>
             (if isMovingPlatform currentPlatform then
                (case lastPosition currentPlatform of
                   None \<Rightarrow> b
                 | Some lp \<Rightarrow>
                     (let deltaX = vec_x (position currentPlatform) - vec_x lp;
                          deltaY = vec_y (position currentPlatform) - vec_y lp;
                          deltaZ = vec_z (position currentPlatform) - vec_z lp
                      in b\<lparr>ballPosition :=
                             \<lparr>vec_x = vec_x (ballPosition b) + deltaX,
                              vec_y = vec_y (ballPosition b) + deltaY,
                              vec_z = vec_z (ballPosition b) + deltaZ\<rparr>\<rparr>))
              else b))
      else b)"

text \<open>
  The rest of the tick: steering, friction, the velocity clamp, jump charge, gravity
  (off while the jetpack burns), terminal velocity, and the position and rotation update.
\<close>

definition integrateMotion ::
  "keys \<Rightarrow> real \<Rightarrow> real \<Rightarrow> bool \<Rightarrow> int \<Rightarrow> bool \<Rightarrow> ball_state \<Rightarrow> ball_state" where
  "integrateMotion ks deltaTime speed isJetpackActive jetpackFuel onPlatformNow b =
     (let acceleration = 0.01;
          maxVelocity = 0.3;
          friction = 0.98;
          vx0 = vec_x (ballVelocity b);
          vx1 = (if keyLeft ks then vx0 - acceleration else vx0);
          vx2 = (if keyRight ks then vx1 + acceleration else vx1);
          vx3 = vx2 * friction;
          vx4 = clamp vx3 (- maxVelocity) maxVelocity;
          charge = (if keySpace ks \<and> \<not> isJumping b \<and> onPlatformNow then
                      (let c = jumpChargeTime b + deltaTime in if c > 0.5 then 0.5 else c)
                    else jumpChargeTime b);
          vy0 = vec_y (ballVelocity b);
          vy1 = (if \<not> isJetpackActive \<or> jetpackFuel \<le> 0
                 then vy0 - gravity GAME_SETTINGS * deltaTime * 60 else vy0);
          terminalVelocity = - 0.5;
          vy2 = (if vy1 < terminalVelocity then terminalVelocity else vy1);
          rotationFactor = 1 / (2 * pi)
      in b\<lparr>ballVelocity := \<lparr>vec_x = vx4, vec_y = vy2, vec_z = vec_z (ballVelocity b)\<rparr>,
            jumpChargeTime := charge,
            ballPosition :=
              \<lparr>vec_x = vec_x (ballPosition b) + vx4 * deltaTime * 60,
               vec_y = vec_y (ballPosition b) + vy2 * deltaTime * 60,
               vec_z = vec_z (ballPosition b) - speed * deltaTime * 60\<rparr>,
            ballRotation :=
              \<lparr>vec_x = vec_x (ballRotation b) - speed * rotationFactor * deltaTime * 360,
               vec_y = vec_y (ballRotation b),
               vec_z = vec_z (ballRotation b) - vx4 * rotationFactor * deltaTime * 360\<rparr>\<rparr>)"

text \<open>
  \<open>updateBallPosition\<close>; \<open>onPlatformNow\<close> is the answer of the callback \<open>isOnPlatform\<close>,
  \<open>ps\<close> the platform list \<open>getCurrentPlatform\<close> searches.
\<close>

definition updateBallPosition ::
  "keys \<Rightarrow> real \<Rightarrow> real \<Rightarrow> bool \<Rightarrow> int \<Rightarrow> bool \<Rightarrow> platform list \<Rightarrow> ball_state \<Rightarrow> ball_state" where
  "updateBallPosition ks deltaTime speed isJetpackActive jetpackFuel onPlatformNow ps b =
     integrateMotion ks deltaTime speed isJetpackActive jetpackFuel onPlatformNow
       (rideMovingPlatform onPlatformNow ps (detectAirEntry onPlatformNow b))"

section \<open>Jetpack (entities/jetpack.js)\<close>

text \<open>
  \<open>updateJetpack\<close>, without the flame animation.  \<open>jetpackCreated\<close> says whether the module
  holds a jetpack object; the new fuel is what the source hands to \<open>updateJetpackFuel\<close>.
\<close>

definition updateJetpack :: "bool \<Rightarrow> bool \<Rightarrow> int \<Rightarrow> ball_state \<Rightarrow> int \<times> ball_state" where
  "updateJetpack jetpackCreated isJetpackActive jetpackFuel b =
     (if \<not> jetpackCreated then (jetpackFuel, b)
      else if isJetpackActive \<and> jetpackFuel > 0 then
        (let b1 = b\<lparr>ballVelocity := (ballVelocity b)
                      \<lparr>vec_y := vec_y (ballVelocity b) + jetpackBoostForce GAME_SETTINGS\<rparr>\<rparr>;
             willDepleteFuel = (jetpackFuel = 1)
         in (jetpackFuel - 1,
             if willDepleteFuel then b1\<lparr>isJumping := True, hasDoubleJumped := False\<rparr> else b1))
      else (jetpackFuel, b))"

section \<open>Moving platforms (entities/platform.js)\<close>

text \<open>The body of the loop of \<open>updateMovingPlatforms\<close> for one platform.\<close>

definition updateMovingPlatform :: "real \<Rightarrow> platform \<Rightarrow> platform" where
  "updateMovingPlatform deltaTime p =
     (if isMovingPlatform p then
        (let p1 = p\<lparr>lastPosition := Some \<lparr>vec_x = vec_x (position p), vec_y = vec_y (position p),
                                          vec_z = vec_z (position p)\<rparr>\<rparr>;
             progress = movementProgress p1 + movementSpeed p1 * deltaTime * 60;
             p2 = p1\<lparr>movementProgress := progress\<rparr>;
             orig = originalPosition p2;
             pos = position p2
         in case movementType p2 of
              Some Horizontal \<Rightarrow>
                p2\<lparr>position := pos\<lparr>vec_x := vec_x orig + sin progress * movementRange p2\<rparr>\<rparr>
            | Some Vertical \<Rightarrow>
                p2\<lparr>position := pos\<lparr>vec_y := vec_y orig + sin progress * movementRange p2\<rparr>\<rparr>
            | Some Diagonal \<Rightarrow>
                p2\<lparr>position := pos
                     \<lparr>vec_x := vec_x orig
                                + sin progress * fst (movementRangeXY p2) * diagonalDirection p2,
                      vec_y := vec_y orig + sin progress * snd (movementRangeXY p2)\<rparr>\<rparr>
            | Some Orbital \<Rightarrow>
                p2\<lparr>position := pos
                     \<lparr>vec_x := vec_x orig + cos progress * orbitalRadius p2,
                      vec_z := vec_z orig + sin progress * orbitalRadius p2\<rparr>\<rparr>
            | Some Figure8 \<Rightarrow>
                p2\<lparr>position := pos
                     \<lparr>vec_x := vec_x orig + sin progress * fst (figure8Scale p2),
                      vec_y := vec_y orig + (sin (progress * 2) * snd (figure8Scale p2)) / 2\<rparr>\<rparr>
            | Some Pendulum \<Rightarrow>
                (if pendulumAxis p2 = AxisX
                 then p2\<lparr>position := pos\<lparr>vec_x := vec_x orig + sin progress * pendulumLength p2\<rparr>\<rparr>
                 else p2\<lparr>position := pos\<lparr>vec_y := vec_y orig + sin progress * pendulumLength p2\<rparr>\<rparr>)
            | None \<Rightarrow> p2)
      else p)"

definition updateMovingPlatforms :: "real \<Rightarrow> platform list \<Rightarrow> platform list" where
  "updateMovingPlatforms deltaTime ps = map (updateMovingPlatform deltaTime) ps"

section \<open>Platform generation (entities/platform.js)\<close>

text \<open>
  The lane of the next platform, from the lane of the last one and the draw \<open>rand\<close>; the
  branches and thresholds are those of the source's chain.
\<close>

fun nextLane :: "lane \<Rightarrow> real \<Rightarrow> lane" where
  "nextLane FarFarLeft rand = FarLeft"
| "nextLane FarLeft rand =
     (if rand < 0.3 then FarFarLeft else if rand < 0.7 then Left else CenterLeft)"
| "nextLane Left rand =
     (if rand < 0.3 then FarLeft else if rand < 0.7 then CenterLeft else Center)"
| "nextLane CenterLeft rand =
     (if rand < 0.3 then Left else if rand < 0.7 then Center else CenterRight)"
| "nextLane Center rand =
     (if rand < 0.15 then FarLeft
      else if rand < 0.3 then Left
      else if rand < 0.45 then CenterLeft
      else if rand < 0.6 then CenterRight
      else if rand < 0.75 then Right
      else if rand < 0.9 then FarRight
      else if rand < 0.95 then FarFarLeft
      else FarFarRight)"
| "nextLane CenterRight rand =
     (if rand < 0.3 then Center else if rand < 0.7 then Right else FarRight)"
| "nextLane Right rand =
     (if rand < 0.3 then CenterRight else if rand < 0.7 then FarRight else FarFarRight)"
| "nextLane FarRight rand = (if rand < 0.7 then Right else FarFarRight)"
| "nextLane FarFarRight rand = FarRight"

text \<open>The X band of a lane, with the draw made inside the \<open>switch\<close>.\<close>

fun laneX :: "lane \<Rightarrow> real \<Rightarrow> real" where
  "laneX FarFarLeft r = - 35 - r * 5"
| "laneX FarLeft r = - 25 - r * 5"
| "laneX Left r = - 15 - r * 5"
| "laneX CenterLeft r = - 7 - r * 3"
| "laneX Center r = r * 10 - 5"
| "laneX CenterRight r = 7 + r * 3"
| "laneX Right r = 15 + r * 5"
| "laneX FarRight r = 25 + r * 5"
| "laneX FarFarRight r = 35 + r * 5"

text \<open>The position of a lane in \<open>PLATFORM_TYPES\<close>, and the number of steps between two lanes.\<close>

fun laneIndex :: "lane \<Rightarrow> nat" where
  "laneIndex FarFarLeft = 0"
| "laneIndex FarLeft = 1"
| "laneIndex Left = 2"
| "laneIndex CenterLeft = 3"
| "laneIndex Center = 4"
| "laneIndex CenterRight = 5"
| "laneIndex Right = 6"
| "laneIndex FarRight = 7"
| "laneIndex FarFarRight = 8"

definition laneSteps :: "lane \<Rightarrow> lane \<Rightarrow> nat" where
  "laneSteps a b = nat \<bar>int (laneIndex a) - int (laneIndex b)\<bar>"

text \<open>
  One call of \<open>createPlatform\<close> makes each of its \<open>Math.random()\<close> calls at most once; the
  record names the outcome of each call site (the width and depth draws of the two size
  branches share a field, only one branch runs).  \<open>Math.random()\<close> answers in \<open>[0, 1)\<close>.
\<close>

record draws =
  dLane :: real
  dBandX :: real
  dJitterX :: real
  dHeight :: real
  dDescent :: real
  dGap :: real
  dLong :: real
  dWidth :: real
  dDepth :: real
  dEffect :: real
  dMoveHalf :: real
  dMoveTenth :: real
  dMoveCoin :: real
  dMoveIndex :: real
  dPhase :: real
  dDiagonal :: real
  dPendulum :: real

definition unitDraw :: "real \<Rightarrow> bool" where
  "unitDraw r = (0 \<le> r \<and> r < 1)"

definition validDraws :: "draws \<Rightarrow> bool" where
  "validDraws d =
     (unitDraw (dLane d) \<and> unitDraw (dBandX d) \<and> unitDraw (dJitterX d) \<and> unitDraw (dHeight d)
      \<and> unitDraw (dDescent d) \<and> unitDraw (dGap d) \<and> unitDraw (dLong d) \<and> unitDraw (dWidth d)
      \<and> unitDraw (dDepth d) \<and> unitDraw (dEffect d) \<and> unitDraw (dMoveHalf d)
      \<and> unitDraw (dMoveTenth d) \<and> unitDraw (dMoveCoin d) \<and> unitDraw (dMoveIndex d)
      \<and> unitDraw (dPhase d) \<and> unitDraw (dDiagonal d) \<and> unitDraw (dPendulum d))"

text \<open>The module-level state of the platform entity.\<close>

record gen_state =
  platforms :: "platform list"
  lastPlatformPosition :: vec3
  lastPlatformType :: lane
  redFlagPlatform :: "platform option"

text \<open>An array read that is \<open>undefined\<close> outside the array.\<close>

definition arrayGet :: "'a list \<Rightarrow> int \<Rightarrow> 'a option" where
  "arrayGet xs i = (if 0 \<le> i \<and> i < int (length xs) then Some (xs ! nat i) else None)"

text \<open>The start platform of the first branch: a 30 by 50 rectangle at the origin.\<close>

definition startPlatform :: platform where
  "startPlatform =
     \<lparr>position = \<lparr>vec_x = 0, vec_y = 0, vec_z = 0\<rparr>, width = 30, depth = 50, radius = 0,
      isRoundPlatform = False, isTrampoline = False, isSlowDownTrampoline = False,
      bounceEffect = None, laneType = Center, isRedFlagPlatform = False,
      isMovingPlatform = False, movementType = None,
      originalPosition = \<lparr>vec_x = 0, vec_y = 0, vec_z = 0\<rparr>, movementProgress = 0,
      movementSpeed = 0, lastPosition = None, movementRange = 0, movementRangeXY = (0, 0),
      diagonalDirection = 0, orbitalRadius = 0, figure8Scale = (0, 0), pendulumLength = 0,
      pendulumAxis = AxisX\<rparr>"

text \<open>
  \<open>createPlatform(isRedFlag, scene, level)\<close> without the meshes: the platform it returns
  and the module state after the call.
\<close>

definition createPlatform :: "bool \<Rightarrow> nat \<Rightarrow> draws \<Rightarrow> gen_state \<Rightarrow> platform \<times> gen_state" where
  "createPlatform isRedFlag level d st =
     (if length (platforms st) = 0 then
        (startPlatform,
         st\<lparr>platforms := platforms st @ [startPlatform],
            lastPlatformPosition := \<lparr>vec_x = 0, vec_y = 0, vec_z = 0\<rparr>,
            lastPlatformType := Center\<rparr>)
      else
        (let platformType = nextLane (lastPlatformType st) (dLane d);
             nextX = laneX platformType (dBandX d) + (dJitterX d * 2 - 1);
             heightVariation = dHeight d;
             nextY = (if heightVariation < 0.8
                      then vec_y (lastPlatformPosition st) - (2 + dDescent d * 4)
                      else vec_y (lastPlatformPosition st));
             nextZ = vec_z (lastPlatformPosition st) - (6 + dGap d * 5.25);
             isLongPlatform = (dLong d < 0.2);
             platformWidth = (if isLongPlatform then 6 + dWidth d * 6 else 4 + dWidth d * 8);
             platformDepth = (if isLongPlatform then 15 + dDepth d * 15 else 4 + dDepth d * 8);
             platformTypeRoll = dEffect d;
             tramp = (isRedFlag \<or> platformTypeRoll < 0.167);
             slow = (\<not> isRedFlag \<and> \<not> platformTypeRoll < 0.167 \<and> platformTypeRoll < 0.208);
             effect = (if tramp then Some Forward else if slow then Some Backward else None);
             isRound = isRedFlag;
             platformRadius = (if isRedFlag then 12 else 0);
             moving = (\<not> isRedFlag \<and> effect = None
                       \<and> (level mod 10 = 5 \<or> level mod 10 = 4
                           \<or> (level mod 10 = 2 \<and> dMoveHalf d < 0.5) \<or> dMoveTenth d < 0.1));
             mtype = (if moving then
                        (if level mod 10 = 4
                         then Some (if dMoveCoin d < 0.5 then Horizontal else Vertical)
                         else arrayGet (types PLATFORM_MOVEMENT)
                                \<lfloor>dMoveIndex d * real (length (types PLATFORM_MOVEMENT))\<rfloor>)
                      else None);
             pos = \<lparr>vec_x = nextX, vec_y = nextY, vec_z = nextZ\<rparr>;
             p = \<lparr>position = pos,
                  width = (if isRound then platformRadius * 2 else platformWidth),
                  depth = (if isRound then platformRadius * 2 else platformDepth),
                  radius = (if isRound then platformRadius else 0),
                  isRoundPlatform = isRound, isTrampoline = tramp, isSlowDownTrampoline = slow,
                  bounceEffect = effect, laneType = platformType, isRedFlagPlatform = isRedFlag,
                  isMovingPlatform = moving, movementType = mtype,
                  originalPosition = pos,
                  movementProgress = (if moving then dPhase d * pi * 2 else 0),
                  movementSpeed = (if moving then baseSpeed PLATFORM_MOVEMENT else 0),
                  lastPosition = (if moving then Some pos else None),
                  movementRange =
                    (if mtype = Some Horizontal then horizontalRange PLATFORM_MOVEMENT
                     else if mtype = Some Vertical then verticalRange PLATFORM_MOVEMENT else 0),
                  movementRangeXY =
                    (if mtype = Some Diagonal
                     then (diagonalRange PLATFORM_MOVEMENT, diagonalRange PLATFORM_MOVEMENT)
                     else (0, 0)),
                  diagonalDirection =
                    (if mtype = Some Diagonal then (if dDiagonal d < 0.5 then 1 else - 1) else 0),
                  orbitalRadius =
                    (if mtype = Some Orbital then pmOrbitalRadius PLATFORM_MOVEMENT else 0),
                  figure8Scale =
                    (if mtype = Some Figure8 then pmFigure8Scale PLATFORM_MOVEMENT else (0, 0)),
                  pendulumLength =
                    (if mtype = Some Pendulum then pmPendulumLength PLATFORM_MOVEMENT else 0),
                  pendulumAxis =
                    (if mtype = Some Pendulum \<and> \<not> dPendulum d < 0.5 then AxisY else AxisX)\<rparr>
         in (p,
             st\<lparr>platforms := platforms st @ [p],
                lastPlatformPosition := pos,
                lastPlatformType := platformType,
                redFlagPlatform := (if isRedFlag then Some p else redFlagPlatform st)\<rparr>)))"

text \<open>
  Successive calls of \<open>createPlatform\<close>: each call with its arguments and its draws; the
  platforms in the order of their creation, and the module state after the last call.
\<close>

fun createPlatforms :: "(bool \<times> nat \<times> draws) list \<Rightarrow> gen_state \<Rightarrow> platform list \<times> gen_state" where
  "createPlatforms [] st = ([], st)"
| "createPlatforms ((isRedFlag, level, d) # calls) st =
     (let first = createPlatform isRedFlag level d st;
          rest = createPlatforms calls (snd first)
      in (fst first # fst rest, snd rest))"

text \<open>The module state before any platform exists.\<close>

definition initialGen :: gen_state where
  "initialGen =
     \<lparr>platforms = [], lastPlatformPosition = \<lparr>vec_x = 0, vec_y = 0, vec_z = 0\<rparr>,
      lastPlatformType = Center, redFlagPlatform = None\<rparr>"

text \<open>
  The first platform \<open>createStartingPlatforms\<close> builds by hand, a 10 by 10 forward
  trampoline at the origin.
\<close>

definition startTrampoline :: platform where
  "startTrampoline =
     startPlatform\<lparr>width := 10, depth := 10, isTrampoline := True,
                   bounceEffect := Some Forward\<rparr>"


section \<open>The ball's state machine\<close>

text \<open>\<open>applyJumpForce\<close>, and the space-bar case of \<open>onKeyUp\<close> that calls it.\<close>

definition applyJumpForce :: "real \<Rightarrow> ball_state \<Rightarrow> ball_state" where
  "applyJumpForce additionalForce b =
     b\<lparr>ballVelocity := (ballVelocity b)\<lparr>vec_y := vec_y (ballVelocity b) + additionalForce\<rparr>\<rparr>"

definition onKeyUpSpace :: "bool \<Rightarrow> ball_state \<Rightarrow> ball_state" where
  "onKeyUpSpace keysSpace b =
     (if keysSpace \<and> isJumping b then
        applyJumpForce
          (min (maxJumpForce GAME_SETTINGS - jumpForce GAME_SETTINGS) (jumpChargeTime b * 0.8)) b
      else b)"

text \<open>
  Everything that writes the ball's state, as events: a jump input (with \<open>keys.space\<close> and
  the platforms of that moment), the release of the space bar, the physics tick, the
  collision handling, the jetpack update, the pickup of an extra-jump token, a move of
  the ball from outside the ball entity (claw, grab, level change: position and velocity
  only) and a restart.  The physics tick and the jump input ask \<open>isOnPlatform\<close> about the
  platforms of that moment.
\<close>

datatype event =
    JumpInput bool "platform list"
  | SpaceReleased bool
  | PhysicsTick keys real real bool int "platform list"
  | Collisions "platform list" real
  | JetpackUpdate bool bool int
  | ExtraJumpPickup
  | Moved vec3 vec3
  | Restart

fun step :: "event \<Rightarrow> ball_state \<Rightarrow> ball_state" where
  "step (JumpInput keysSpace ps) b = snd (onKeyDownJump keysSpace (isOnPlatform ps b) b)"
| "step (SpaceReleased keysSpace) b = onKeyUpSpace keysSpace b"
| "step (PhysicsTick ks deltaTime speed isJetpackActive jetpackFuel ps) b =
     updateBallPosition ks deltaTime speed isJetpackActive jetpackFuel (isOnPlatform ps b) ps b"
| "step (Collisions ps speed) b = resultBall (handlePlatformCollisions ps speed b)"
| "step (JetpackUpdate jetpackCreated isJetpackActive jetpackFuel) b =
     snd (updateJetpack jetpackCreated isJetpackActive jetpackFuel b)"
| "step ExtraJumpPickup b = addExtraJumps 1 b"
| "step (Moved p v) b = b\<lparr>ballPosition := p, ballVelocity := v\<rparr>"
| "step Restart b = resetBallState b"

fun run :: "event list \<Rightarrow> ball_state \<Rightarrow> ball_state" where
  "run [] b = b"
| "run (e # es) b = run es (step e b)"

text \<open>The states the ball can be in: those a run of events reaches from the initial one.\<close>

inductive reachable :: "ball_state \<Rightarrow> bool" where
  reachable_initial: "reachable initialBall"
| reachable_step: "reachable b \<Longrightarrow> reachable (step e b)"

code_pred reachable .

text \<open>An event that finds the ball on a platform.\<close>

fun grounded :: "event \<Rightarrow> ball_state \<Rightarrow> bool" where
  "grounded (JumpInput keysSpace ps) b = isOnPlatform ps b"
| "grounded (PhysicsTick ks deltaTime speed isJetpackActive jetpackFuel ps) b = isOnPlatform ps b"
| "grounded (Collisions ps speed) b = isOnPlatform ps b"
| "grounded e b = False"

text \<open>A jump input that the handler answers with a double jump.\<close>

fun grantsDoubleJump :: "event \<Rightarrow> ball_state \<Rightarrow> bool" where
  "grantsDoubleJump (JumpInput keysSpace ps) b =
     (jumpBranch keysSpace (isOnPlatform ps b) b = DoubleJump)"
| "grantsDoubleJump e b = False"

text \<open>A jetpack update that burns the last unit of fuel.\<close>

fun burnsLastFuel :: "event \<Rightarrow> bool" where
  "burnsLastFuel (JetpackUpdate jetpackCreated isJetpackActive jetpackFuel) =
     (jetpackCreated \<and> isJetpackActive \<and> jetpackFuel = 1)"
| "burnsLastFuel e = False"

text \<open>
  A run in the air: no event of it finds the ball on a platform or restarts the game.
  \<open>doubleJumps\<close> counts the double jumps granted in a run.
\<close>

fun airborneRun :: "event list \<Rightarrow> ball_state \<Rightarrow> bool" where
  "airborneRun [] b = True"
| "airborneRun (e # es) b = (\<not> grounded e b \<and> e \<noteq> Restart \<and> airborneRun es (step e b))"

fun noLastFuelBurn :: "event list \<Rightarrow> bool" where
  "noLastFuelBurn [] = True"
| "noLastFuelBurn (e # es) = (\<not> burnsLastFuel e \<and> noLastFuelBurn es)"

fun doubleJumps :: "event list \<Rightarrow> ball_state \<Rightarrow> nat" where
  "doubleJumps [] b = 0"
| "doubleJumps (e # es) b =
     (if grantsDoubleJump e b then 1 else 0) + doubleJumps es (step e b)"

text \<open>
  The double jump is spent and nothing in the air can hand it back: the flag is set, a
  ball that was on a platform at the last tick is jumping (so the next tick does not
  take it for rolled or fallen off), and a ball that fell has made its first jump.
\<close>

definition spent :: "ball_state \<Rightarrow> bool" where
  "spent b = (hasDoubleJumped b \<and> (\<not> isJumping b \<longrightarrow> \<not> wasOnPlatform b)
              \<and> (\<not> isJumping b \<longrightarrow> airEntryMethod b \<noteq> ''fell''))"

section \<open>Fall-out-of-bounds check (systems/collision.js)\<close>

text \<open>The first loop of \<open>checkFallOutOfBounds\<close>: platforms ahead of or below the ball.\<close>

fun validPlatforms :: "vec3 \<Rightarrow> platform list \<Rightarrow> platform list" where
  "validPlatforms b [] = []"
| "validPlatforms b (p # ps) =
     (if vec_z (position p) \<le> vec_z b \<or> vec_y (position p) \<le> vec_y b
      then p # validPlatforms b ps else validPlatforms b ps)"

text \<open>
  The second loop.  The accumulator starts at \<open>-Infinity\<close>, which is \<open>None\<close> here: every
  number is greater than it, and no number is less than it.
\<close>

fun highestPlatformY :: "real option \<Rightarrow> platform list \<Rightarrow> real option" where
  "highestPlatformY h [] = h"
| "highestPlatformY h (p # ps) =
     highestPlatformY
       (if (case h of None \<Rightarrow> True | Some v \<Rightarrow> vec_y (position p) > v)
        then Some (vec_y (position p)) else h) ps"

definition checkFallOutOfBounds :: "vec3 \<Rightarrow> platform list \<Rightarrow> real \<Rightarrow> bool" where
  "checkFallOutOfBounds b ps fallThreshold =
     (if length ps = 0 then False
      else
        let valid = validPlatforms b ps;
            valid' = (if length valid = 0 then ps else valid)
        in case highestPlatformY None valid' of
             None \<Rightarrow> False
           | Some h \<Rightarrow> vec_y b < h - fallThreshold)"

text \<open>The default argument \<open>fallThreshold = 30\<close>.\<close>

definition checkFallOutOfBoundsDefault :: "vec3 \<Rightarrow> platform list \<Rightarrow> bool" where
  "checkFallOutOfBoundsDefault b ps = checkFallOutOfBounds b ps 30"

section \<open>Scenario inputs\<close>

text \<open>A ball at \<open>(0, 1.05, 0)\<close> falling with vertical velocity \<open>-0.2\<close>.\<close>

definition fallingBall :: ball_state where
  "fallingBall =
     initialBall\<lparr>ballPosition := \<lparr>vec_x = 0, vec_y = 1.05, vec_z = 0\<rparr>,
                 ballVelocity := \<lparr>vec_x = 0, vec_y = - 0.2, vec_z = 0\<rparr>\<rparr>"

text \<open>The object \<open>checkPlatformCollision\<close> returns for a rectangular platform with top 0.5.\<close>

definition landingInfo :: "bounce option \<Rightarrow> platformInfo" where
  "landingInfo effect =
     \<lparr>onPlatform = True, infoBounceEffect = effect, infoIsTrampoline = None,
      infoIsRedFlagPlatform = False, platformY = 0.5, ballRadius = 1.0\<rparr>"

text \<open>A call of \<open>createPlatform\<close> in which every \<open>Math.random()\<close> answers \<open>r\<close>.\<close>

definition constantDraws :: "real \<Rightarrow> draws" where
  "constantDraws r =
     \<lparr>dLane = r, dBandX = r, dJitterX = r, dHeight = r, dDescent = r, dGap = r, dLong = r,
      dWidth = r, dDepth = r, dEffect = r, dMoveHalf = r, dMoveTenth = r, dMoveCoin = r,
      dMoveIndex = r, dPhase = r, dDiagonal = r, dPendulum = r\<rparr>"

text \<open>
  A horizontally moving platform with the movement properties \<open>createPlatform\<close> stores
  (range \<open>horizontalRange\<close>, speed \<open>baseSpeed\<close>, \<open>lastPosition\<close> at its position), at
  phase 0, with the start platform's size and position.
\<close>

definition horizontalMover :: platform where
  "horizontalMover =
     startPlatform\<lparr>isMovingPlatform := True, movementType := Some Horizontal,
                   movementSpeed := baseSpeed PLATFORM_MOVEMENT,
                   movementRange := horizontalRange PLATFORM_MOVEMENT,
                   lastPosition := Some (position startPlatform)\<rparr>"

text \<open>A ball at rest on top of a platform whose top is at 0.5.\<close>

definition restingBall :: ball_state where
  "restingBall = initialBall\<lparr>ballPosition := \<lparr>vec_x = 0, vec_y = 1.5, vec_z = 0\<rparr>\<rparr>"

text \<open>No key held.\<close>

definition noKeys :: keys where
  "noKeys = \<lparr>keyLeft = False, keyRight = False, keySpace = False\<rparr>"

text \<open>
  A ball that is put on the start platform, spends a tick there, is landed by the
  collision handling and then jumps: the events, and the ball after them.
\<close>

definition jumpFromStart :: "event list" where
  "jumpFromStart =
     [Moved \<lparr>vec_x = 0, vec_y = 1.5, vec_z = 0\<rparr> \<lparr>vec_x = 0, vec_y = 0, vec_z = 0\<rparr>,
      PhysicsTick noKeys (1 / 60) 0.15 False 0 [startPlatform],
      Collisions [startPlatform] 0.15,
      JumpInput False [startPlatform]]"

definition jumpedBall :: ball_state where
  "jumpedBall = run jumpFromStart initialBall"

text \<open>The same ball after a second jump input, given in the air.\<close>

definition doubleJumpedBall :: ball_state where
  "doubleJumpedBall = step (JumpInput False [startPlatform]) jumpedBall"

text \<open>
  A ball that is put on the first trampoline, spends a tick there and is bounced by the
  collision handling.
\<close>

definition bouncedBall :: ball_state where
  "bouncedBall =
     run [Moved \<lparr>vec_x = 0, vec_y = 1.5, vec_z = 0\<rparr> \<lparr>vec_x = 0, vec_y = 0, vec_z = 0\<rparr>,
          PhysicsTick noKeys (1 / 60) 0.15 False 0 [startTrampoline],
          Collisions [startTrampoline] 0.15] initialBall"


definition moverCourse :: "platform list" where
  "moverCourse =
     platforms (snd (createPlatform False 5 ((constantDraws 0.5)\<lparr>dMoveIndex := 0, dPhase := 0\<rparr>)
                  (snd (createPlatform False 1 (constantDraws 0.5) initialGen))))"


definition ballOnSecondPlatform :: ball_state where
  "ballOnSecondPlatform =
     initialBall\<lparr>ballPosition := \<lparr>vec_x = 8.5, vec_y = - 2.5, vec_z = - 8.625\<rparr>\<rparr>"

text \<open>
  The bounced ball after a jump input in the air (a double jump) and after it has then
  been set down at rest on the trampoline from outside, as the end of a grab does.
\<close>

definition spentOnPlatform :: ball_state where
  "spentOnPlatform =
     run [JumpInput False [startTrampoline],
          Moved \<lparr>vec_x = 0, vec_y = 1.5, vec_z = 0\<rparr> \<lparr>vec_x = 0, vec_y = 0, vec_z = 0\<rparr>]
       bouncedBall"


section \<open>Properties of the fall-out-of-bounds check\<close>

lemma validPlatforms_filter:
  "validPlatforms b ps =
     filter (\<lambda>p. vec_z (position p) \<le> vec_z b \<or> vec_y (position p) \<le> vec_y b) ps"
  by (induction ps) simp_all

lemma Max_insert_max:
  fixes S :: "real set"
  assumes "finite S"
  shows "Max (insert (max h v) S) = Max (insert h (insert v S))"
proof (cases "S = {}")
  case True
  then show ?thesis by (simp add: max.commute)
next
  case False
  then show ?thesis
    using assms by (simp add: max.assoc)
qed

lemma highestPlatformY_Some:
  "highestPlatformY (Some h) ps = Some (Max (insert h ((\<lambda>p. vec_y (position p)) ` set ps)))"
proof (induction ps arbitrary: h)
  case Nil
  show ?case by simp
next
  case (Cons p ps)
  have step: "(if vec_y (position p) > h then vec_y (position p) else h)
                = max h (vec_y (position p))"
    by (simp add: max_def)
  have "highestPlatformY (Some h) (p # ps)
          = highestPlatformY (Some (max h (vec_y (position p)))) ps"
    using step by simp
  also have "\<dots> = Some (Max (insert (max h (vec_y (position p)))
                                   ((\<lambda>p. vec_y (position p)) ` set ps)))"
    by (rule Cons.IH)
  also have "\<dots> = Some (Max (insert h ((\<lambda>p. vec_y (position p)) ` set (p # ps))))"
    by (simp add: Max_insert_max)
  finally show ?case .
qed

lemma highestPlatformY_None:
  "ps \<noteq> [] \<Longrightarrow>
     highestPlatformY None ps = Some (Max ((\<lambda>p. vec_y (position p)) ` set ps))"
  by (cases ps) (simp_all add: highestPlatformY_Some)

text \<open>
  Claim C10.  On an empty platform list the check answers \<open>False\<close>.  On a non-empty list
  the reference set is the set of platforms ahead of the ball (\<open>z \<le>\<close> the ball's) or below
  it (\<open>y \<le>\<close> the ball's), or every platform when there is none, and the check answers
  \<open>True\<close> exactly when the ball's Y is more than the threshold below the greatest Y of
  the reference set; the default threshold is 30.
\<close>

theorem checkFallOutOfBounds_spec:
  "checkFallOutOfBounds b [] t = False
   \<and> (ps \<noteq> [] \<longrightarrow>
        checkFallOutOfBounds b ps t =
          (let valid = {p \<in> set ps. vec_z (position p) \<le> vec_z b \<or> vec_y (position p) \<le> vec_y b};
               ref = (if valid = {} then set ps else valid)
           in vec_y b < Max ((\<lambda>p. vec_y (position p)) ` ref) - t))
   \<and> checkFallOutOfBoundsDefault b ps = checkFallOutOfBounds b ps 30"
proof (intro conjI impI)
  show "checkFallOutOfBounds b [] t = False"
    by (simp add: checkFallOutOfBounds_def)
next
  assume ne: "ps \<noteq> []"
  define V where "V = {p \<in> set ps. vec_z (position p) \<le> vec_z b \<or> vec_y (position p) \<le> vec_y b}"
  have set_valid: "set (validPlatforms b ps) = V"
    by (simp add: validPlatforms_filter V_def)
  have "checkFallOutOfBounds b ps t =
          (vec_y b < Max ((\<lambda>p. vec_y (position p)) ` (if V = {} then set ps else V)) - t)"
  proof (cases "validPlatforms b ps = []")
    case True
    then have "V = {}"
      using set_valid by simp
    then show ?thesis
      using ne True by (simp add: checkFallOutOfBounds_def Let_def highestPlatformY_None)
  next
    case False
    then have "V \<noteq> {}"
      using set_valid by (metis set_empty)
    moreover have "highestPlatformY None (validPlatforms b ps)
                     = Some (Max ((\<lambda>p. vec_y (position p)) ` V))"
      using False set_valid by (simp add: highestPlatformY_None)
    ultimately show ?thesis
      using ne False by (simp add: checkFallOutOfBounds_def Let_def)
  qed
  then show "checkFallOutOfBounds b ps t =
          (let valid = {p \<in> set ps. vec_z (position p) \<le> vec_z b \<or> vec_y (position p) \<le> vec_y b};
               ref = (if valid = {} then set ps else valid)
           in vec_y b < Max ((\<lambda>p. vec_y (position p)) ` ref) - t)"
    unfolding V_def Let_def .
next
  show "checkFallOutOfBoundsDefault b ps = checkFallOutOfBounds b ps 30"
    by (simp add: checkFallOutOfBoundsDefault_def)
qed

theorem checkFallOutOfBounds_spec_witness:
  "[startPlatform] \<noteq> []
   \<and> checkFallOutOfBounds \<lparr>vec_x = 0, vec_y = - 40, vec_z = 0\<rparr> [startPlatform] 30
   \<and> \<not> checkFallOutOfBounds \<lparr>vec_x = 0, vec_y = - 30, vec_z = 0\<rparr> [startPlatform] 30
   \<and> \<not> checkFallOutOfBounds \<lparr>vec_x = 0, vec_y = - 40, vec_z = 0\<rparr> [] 30"
proof -
  have ne: "[startPlatform] \<noteq> []"
    by simp
  show ?thesis
    using ne
      checkFallOutOfBounds_spec [of "\<lparr>vec_x = 0, vec_y = - 40, vec_z = 0\<rparr>" 30 "[startPlatform]"]
      checkFallOutOfBounds_spec [of "\<lparr>vec_x = 0, vec_y = - 30, vec_z = 0\<rparr>" 30 "[startPlatform]"]
    by (simp add: startPlatform_def Let_def)
qed

section \<open>Goal platform and the goal-reached callback\<close>

text \<open>
  The collision object of the bounce-effect variant has no \<open>isTrampoline\<close>, so with that
  variant the guard of the callback is never passed.
\<close>

lemma checkPlatformCollision_no_isTrampoline:
  "infoIsTrampoline (checkPlatformCollision ps bp bv) = None"
  by (induction ps) simp_all

lemma redFlagCallback_dead:
  "redFlagCallbackInvoked (handlePlatformCollisions ps speed b) = False"
  by (simp add: handlePlatformCollisions_def handleCollisionInfo_def
        checkPlatformCollision_no_isTrampoline Let_def split: prod.splits)













section \<open>Trampoline effects\<close>

lemma slow_down_landing_speed:
  "onPlatform info \<Longrightarrow> vec_y (ballVelocity b) < 0 \<Longrightarrow> infoBounceEffect info = Some Backward \<Longrightarrow>
     fst (applyPlatformEffects info speed b) = speed - 0.05"
  by (simp add: applyPlatformEffects_def GAME_SETTINGS_def Let_def)

text \<open>
  Claim C2 says that a landing on a slow-down trampoline never takes the base speed below
  the configured floor.  \<open>GAME_SETTINGS\<close> configures no floor and the comparison with the
  missing entry never holds: four such landings take the initial speed 0.15 to 0.1, 0.05,
  0 and then to the negative speed \<open>-0.05\<close>.
\<close>

theorem slow_down_speed_below_zero:
  "minSpeed GAME_SETTINGS = None
   \<and> onPlatform (landingInfo (Some Backward)) \<and> vec_y (ballVelocity fallingBall) < 0
   \<and> fst (applyPlatformEffects (landingInfo (Some Backward)) (initialSpeed GAME_SETTINGS)
           fallingBall) = 0.1
   \<and> fst (applyPlatformEffects (landingInfo (Some Backward)) 0.1 fallingBall) = 0.05
   \<and> fst (applyPlatformEffects (landingInfo (Some Backward)) 0.05 fallingBall) = 0
   \<and> fst (applyPlatformEffects (landingInfo (Some Backward)) 0 fallingBall) = - 0.05
   \<and> fst (applyPlatformEffects (landingInfo (Some Backward)) 0 fallingBall) < 0"
  by (simp add: applyPlatformEffects_def landingInfo_def fallingBall_def initialBall_def
        GAME_SETTINGS_def Let_def)

text \<open>
  Claim C5.  A landing (on a platform, vertical velocity below 0) on a speed-boost
  trampoline sets the vertical velocity to 1.5 times \<open>maxJumpForce\<close>, lowers the z velocity
  by 0.1, returns the incoming speed plus 0.025 and leaves the double-jump flag cleared.
\<close>

theorem speed_boost_landing:
  "onPlatform info \<Longrightarrow> vec_y (ballVelocity b) < 0 \<Longrightarrow> infoBounceEffect info = Some Forward \<Longrightarrow>
     vec_y (ballVelocity (snd (applyPlatformEffects info speed b))) = 1.5 * maxJumpForce GAME_SETTINGS
     \<and> vec_z (ballVelocity (snd (applyPlatformEffects info speed b))) = vec_z (ballVelocity b) - 0.1
     \<and> fst (applyPlatformEffects info speed b) = speed + 0.025
     \<and> \<not> hasDoubleJumped (snd (applyPlatformEffects info speed b))"
  by (simp add: applyPlatformEffects_def Let_def)

theorem speed_boost_landing_witness:
  "onPlatform (landingInfo (Some Forward)) \<and> vec_y (ballVelocity fallingBall) < 0
   \<and> infoBounceEffect (landingInfo (Some Forward)) = Some Forward
   \<and> vec_y (ballVelocity (snd (applyPlatformEffects (landingInfo (Some Forward)) 0.15 fallingBall))) = 0.6
   \<and> vec_z (ballVelocity (snd (applyPlatformEffects (landingInfo (Some Forward)) 0.15 fallingBall))) = - 0.1
   \<and> fst (applyPlatformEffects (landingInfo (Some Forward)) 0.15 fallingBall) = 0.175
   \<and> \<not> hasDoubleJumped (snd (applyPlatformEffects (landingInfo (Some Forward)) 0.15 fallingBall))"
proof -
  have h1: "onPlatform (landingInfo (Some Forward))"
    by (simp add: landingInfo_def)
  have h2: "vec_y (ballVelocity fallingBall) < 0"
    by (simp add: fallingBall_def)
  have h3: "infoBounceEffect (landingInfo (Some Forward)) = Some Forward"
    by (simp add: landingInfo_def)
  show ?thesis
    using speed_boost_landing [OF h1 h2 h3, of "0.15"] h1 h2 h3
    by (simp add: GAME_SETTINGS_def fallingBall_def initialBall_def)
qed

section \<open>Platform generation\<close>

lemma createPlatform_nonempty: "platforms (snd (createPlatform r l d st)) \<noteq> []"
  by (simp add: createPlatform_def Let_def)

lemma createPlatform_last_state:
  "lastPlatformType (snd (createPlatform r l d st)) = laneType (fst (createPlatform r l d st))
   \<and> lastPlatformPosition (snd (createPlatform r l d st)) = position (fst (createPlatform r l d st))"
  by (simp add: createPlatform_def Let_def startPlatform_def)

lemma createPlatform_next:
  "platforms st \<noteq> [] \<Longrightarrow>
     laneType (fst (createPlatform r l d st)) = nextLane (lastPlatformType st) (dLane d)
     \<and> vec_y (position (fst (createPlatform r l d st))) =
         (if dHeight d < 0.8 then vec_y (lastPlatformPosition st) - (2 + dDescent d * 4)
          else vec_y (lastPlatformPosition st))
     \<and> vec_z (position (fst (createPlatform r l d st))) =
         vec_z (lastPlatformPosition st) - (6 + dGap d * 5.25)"
  by (simp add: createPlatform_def Let_def)

lemma nextLane_steps:
  "prev \<noteq> Center \<or> rand < 0.9 \<Longrightarrow>
     1 \<le> laneSteps prev (nextLane prev rand)
     \<and> laneSteps prev (nextLane prev rand) \<le> (if prev = Center then 3 else 2)"
  by (cases prev) (simp_all add: laneSteps_def)

lemma nextLane_changes_lane:
  "1 \<le> laneSteps prev (nextLane prev rand) \<and> laneSteps prev (nextLane prev rand) \<le> 4"
  by (cases prev) (simp_all add: laneSteps_def)

lemma laneIndex_PLATFORM_TYPES: "PLATFORM_TYPES ! laneIndex l = l \<and> laneIndex l < length PLATFORM_TYPES"
  by (cases l) (simp_all add: PLATFORM_TYPES_def)

text \<open>
  Claim C3 says the lane of every platform after the first is at most one step from the
  lane of the platform before it.  The second platform of a fresh course already breaks
  this: the first platform is in the centre lane, and with the lane draw 0.1 the next one
  is in the far-left lane, three steps away.
\<close>

theorem lane_step_counterexample:
  "laneType (fst (createPlatform False 1 (constantDraws 0.1) initialGen)) = Center
   \<and> laneType (fst (createPlatform False 1 (constantDraws 0.1)
                      (snd (createPlatform False 1 (constantDraws 0.1) initialGen)))) = FarLeft
   \<and> laneSteps (laneType (fst (createPlatform False 1 (constantDraws 0.1) initialGen)))
        (laneType (fst (createPlatform False 1 (constantDraws 0.1)
                      (snd (createPlatform False 1 (constantDraws 0.1) initialGen))))) = 3"
  by (simp add: createPlatform_def Let_def initialGen_def constantDraws_def startPlatform_def
        laneSteps_def)

text \<open>
  Claim C3 as amended.  For two successive calls of \<open>createPlatform\<close>, the lane of the
  second platform is at most two steps from the lane of the first when the first is not
  in the centre lane, and at most three steps from it when the first is in the centre
  lane and the lane draw is below 0.9.
\<close>

theorem lane_step_bound:
  assumes "laneType (fst (createPlatform r1 l1 d1 st)) \<noteq> Center \<or> dLane d2 < 0.9"
  shows "laneSteps (laneType (fst (createPlatform r1 l1 d1 st)))
                (laneType (fst (createPlatform r2 l2 d2 (snd (createPlatform r1 l1 d1 st)))))
             \<le> (if laneType (fst (createPlatform r1 l1 d1 st)) = Center then 3 else 2)"
proof -
  let ?s1 = "snd (createPlatform r1 l1 d1 st)"
  have "laneType (fst (createPlatform r2 l2 d2 ?s1)) = nextLane (lastPlatformType ?s1) (dLane d2)"
    using createPlatform_next [OF createPlatform_nonempty] by blast
  moreover have "lastPlatformType ?s1 = laneType (fst (createPlatform r1 l1 d1 st))"
    using createPlatform_last_state by blast
  ultimately show ?thesis
    using nextLane_steps [OF assms] by simp
qed

theorem lane_step_bound_witness:
  "dLane (constantDraws 0.5) < 0.9
   \<and> laneSteps (laneType (fst (createPlatform False 1 (constantDraws 0.5) initialGen)))
        (laneType (fst (createPlatform False 1 (constantDraws 0.5)
                      (snd (createPlatform False 1 (constantDraws 0.5) initialGen))))) = 1"
proof -
  have h: "laneType (fst (createPlatform False 1 (constantDraws 0.5) initialGen)) \<noteq> Center
           \<or> dLane (constantDraws 0.5) < 0.9"
    by (simp add: constantDraws_def)
  show ?thesis
    using lane_step_bound [OF h, where ?r2.0 = False and ?l2.0 = 1]
    by (simp add: createPlatform_def Let_def initialGen_def constantDraws_def startPlatform_def
          laneSteps_def)
qed

lemma descent_step:
  assumes "validDraws d2"
  shows "let p1 = position (fst (createPlatform r1 l1 d1 st));
             p2 = position (fst (createPlatform r2 l2 d2 (snd (createPlatform r1 l1 d1 st))))
         in vec_y p2 \<le> vec_y p1
            \<and> (vec_y p2 = vec_y p1 \<or> (2 \<le> vec_y p1 - vec_y p2 \<and> vec_y p1 - vec_y p2 \<le> 6))
            \<and> vec_z p2 < vec_z p1
            \<and> 6 \<le> vec_z p1 - vec_z p2 \<and> vec_z p1 - vec_z p2 \<le> 11.25"
proof -
  let ?s1 = "snd (createPlatform r1 l1 d1 st)"
  let ?p1 = "position (fst (createPlatform r1 l1 d1 st))"
  let ?p2 = "position (fst (createPlatform r2 l2 d2 ?s1))"
  have prev: "lastPlatformPosition ?s1 = ?p1"
    using createPlatform_last_state by blast
  have y: "vec_y ?p2 = (if dHeight d2 < 0.8 then vec_y ?p1 - (2 + dDescent d2 * 4) else vec_y ?p1)"
    and z: "vec_z ?p2 = vec_z ?p1 - (6 + dGap d2 * 5.25)"
    using createPlatform_next [OF createPlatform_nonempty, of r2 l2 d2 r1 l1 d1 st] prev
    by simp_all
  have d: "0 \<le> dDescent d2" "dDescent d2 < 1" "0 \<le> dGap d2" "dGap d2 < 1"
    using assms by (simp_all add: validDraws_def unitDraw_def)
  show ?thesis
    unfolding Let_def using y z d by auto
qed

lemma createPlatforms_length: "length (fst (createPlatforms calls st)) = length calls"
  by (induction calls arbitrary: st) (auto simp add: Let_def)

text \<open>
  Claim C6.  In the sequence of platforms that successive calls of \<open>createPlatform\<close>
  produce, with every draw in \<open>[0, 1)\<close>, each platform after the first has a Y that is
  not above the Y of the platform before it (equal, or lower by between 2 and 6) and a Z
  that is smaller by a gap between 6 and 11.25.
\<close>

theorem descent_and_gap:
  assumes "\<forall>c \<in> set calls. validDraws (snd (snd c))"
    and "Suc i < length calls"
  shows "let ps = fst (createPlatforms calls st);
             p1 = position (ps ! i); p2 = position (ps ! Suc i)
         in vec_y p2 \<le> vec_y p1
            \<and> (vec_y p2 = vec_y p1 \<or> (2 \<le> vec_y p1 - vec_y p2 \<and> vec_y p1 - vec_y p2 \<le> 6))
            \<and> vec_z p2 < vec_z p1
            \<and> 6 \<le> vec_z p1 - vec_z p2 \<and> vec_z p1 - vec_z p2 \<le> 11.25"
  using assms
proof (induction calls arbitrary: st i)
  case Nil
  then show ?case by simp
next
  case (Cons c calls)
  obtain r l d where c: "c = (r, l, d)"
    by (cases c) auto
  let ?s1 = "snd (createPlatform r l d st)"
  show ?case
  proof (cases i)
    case 0
    with Cons.prems obtain c2 rest where calls: "calls = c2 # rest"
      by (cases calls) auto
    obtain r2 l2 d2 where c2: "c2 = (r2, l2, d2)"
      by (cases c2) auto
    have v: "validDraws d2"
      using Cons.prems(1) calls c2 by simp
    show ?thesis
      using descent_step [OF v, of r l d st r2 l2] 0 c calls c2
      by (simp add: Let_def)
  next
    case (Suc j)
    have "\<forall>c \<in> set calls. validDraws (snd (snd c))" "Suc j < length calls"
      using Cons.prems Suc by simp_all
    from Cons.IH [OF this, of ?s1] show ?thesis
      using Suc c by (simp add: Let_def)
  qed
qed

theorem descent_and_gap_witness:
  "validDraws (constantDraws 0.5) \<and> validDraws (constantDraws 0.9)
   \<and> map position
        (fst (createPlatforms
                [(False, 1, constantDraws 0.5), (False, 1, constantDraws 0.5),
                 (True, 3, constantDraws 0.9)] initialGen))
       = [\<lparr>vec_x = 0, vec_y = 0, vec_z = 0\<rparr>,
          \<lparr>vec_x = 8.5, vec_y = - 4, vec_z = - 8.625\<rparr>,
          \<lparr>vec_x = 30.3, vec_y = - 4, vec_z = - 19.35\<rparr>]"
proof -
  let ?calls = "[(False, 1, constantDraws 0.5), (False, 1, constantDraws 0.5),
                 (True, 3, constantDraws 0.9)]"
  have v: "validDraws (constantDraws 0.5)" "validDraws (constantDraws 0.9)"
    by (simp_all add: validDraws_def unitDraw_def constantDraws_def)
  then have h1: "\<forall>c \<in> set ?calls. validDraws (snd (snd c))"
    by simp
  have h2: "Suc 1 < length ?calls"
    by simp
  have e: "map position (fst (createPlatforms ?calls initialGen))
       = [\<lparr>vec_x = 0, vec_y = 0, vec_z = 0\<rparr>,
          \<lparr>vec_x = 8.5, vec_y = - 4, vec_z = - 8.625\<rparr>,
          \<lparr>vec_x = 30.3, vec_y = - 4, vec_z = - 19.35\<rparr>]"
    by (simp add: createPlatform_def Let_def initialGen_def constantDraws_def startPlatform_def)
  show ?thesis
    using v e descent_and_gap [OF h1 h2, of initialGen]
    by blast
qed


section \<open>Moving platforms and the ball riding them\<close>

lemma updateMovingPlatform_cache:
  "isMovingPlatform p \<Longrightarrow>
     lastPosition (updateMovingPlatform dt p) = Some (position p)
     \<and> movementProgress (updateMovingPlatform dt p) = movementProgress p + movementSpeed p * dt * 60
     \<and> isMovingPlatform (updateMovingPlatform dt p)"
  by (simp add: updateMovingPlatform_def Let_def split: option.splits movement.splits)

lemma updateMovingPlatform_horizontal:
  "isMovingPlatform p \<Longrightarrow> movementType p = Some Horizontal \<Longrightarrow>
     position (updateMovingPlatform dt p) =
       (position p)\<lparr>vec_x := vec_x (originalPosition p)
                         + movementRange p * sin (movementProgress p + movementSpeed p * dt * 60)\<rparr>"
  by (simp add: updateMovingPlatform_def Let_def mult.commute)

lemma rideMovingPlatform_delta:
  "getCurrentPlatform ps (ballPosition b) (ballVelocity b) = Some q \<Longrightarrow> isMovingPlatform q \<Longrightarrow>
   lastPosition q = Some lp \<Longrightarrow>
     ballPosition (rideMovingPlatform True ps b) =
       \<lparr>vec_x = vec_x (ballPosition b) + (vec_x (position q) - vec_x lp),
        vec_y = vec_y (ballPosition b) + (vec_y (position q) - vec_y lp),
        vec_z = vec_z (ballPosition b) + (vec_z (position q) - vec_z lp)\<rparr>"
  by (simp add: rideMovingPlatform_def Let_def)

lemma isOnPlatform_iff:
  "isOnPlatform ps b = (getCurrentPlatform ps (ballPosition b) (ballVelocity b) \<noteq> None)"
  unfolding isOnPlatform_def by (induction ps) simp_all

lemma detectAirEntry_motion:
  "ballPosition (detectAirEntry onp b) = ballPosition b
   \<and> ballVelocity (detectAirEntry onp b) = ballVelocity b"
  by (simp add: detectAirEntry_def Let_def)

lemma integrateMotion_position:
  "ballPosition (integrateMotion ks dt speed ja jf onp b) =
     \<lparr>vec_x = vec_x (ballPosition b)
               + vec_x (ballVelocity (integrateMotion ks dt speed ja jf onp b)) * dt * 60,
      vec_y = vec_y (ballPosition b)
               + vec_y (ballVelocity (integrateMotion ks dt speed ja jf onp b)) * dt * 60,
      vec_z = vec_z (ballPosition b) - speed * dt * 60\<rparr>"
  by (simp add: integrateMotion_def Let_def)

lemma moverCourse_eval:
  "moverCourse = [moverCourse ! 0, moverCourse ! 1]
   \<and> moverCourse ! 0 = startPlatform
   \<and> isMovingPlatform (moverCourse ! 1) \<and> movementType (moverCourse ! 1) = Some Horizontal
   \<and> \<not> isRoundPlatform (moverCourse ! 1)
   \<and> width (moverCourse ! 1) = 8 \<and> depth (moverCourse ! 1) = 8
   \<and> position (moverCourse ! 1) = \<lparr>vec_x = 8.5, vec_y = - 4, vec_z = - 8.625\<rparr>
   \<and> originalPosition (moverCourse ! 1) = \<lparr>vec_x = 8.5, vec_y = - 4, vec_z = - 8.625\<rparr>
   \<and> lastPosition (moverCourse ! 1) = Some \<lparr>vec_x = 8.5, vec_y = - 4, vec_z = - 8.625\<rparr>
   \<and> movementProgress (moverCourse ! 1) = 0 \<and> movementSpeed (moverCourse ! 1) = 0.02
   \<and> movementRange (moverCourse ! 1) = 10"
  by (simp add: moverCourse_def createPlatform_def Let_def initialGen_def constantDraws_def
      startPlatform_def PLATFORM_MOVEMENT_def arrayGet_def)

lemma movedMover_eval:
  "updateMovingPlatforms (5 * pi / 12) moverCourse
     = [startPlatform, updateMovingPlatform (5 * pi / 12) (moverCourse ! 1)]
   \<and> \<not> isRoundPlatform (updateMovingPlatform (5 * pi / 12) (moverCourse ! 1))
   \<and> width (updateMovingPlatform (5 * pi / 12) (moverCourse ! 1)) = 8
   \<and> depth (updateMovingPlatform (5 * pi / 12) (moverCourse ! 1)) = 8
   \<and> position (updateMovingPlatform (5 * pi / 12) (moverCourse ! 1))
       = \<lparr>vec_x = 18.5, vec_y = - 4, vec_z = - 8.625\<rparr>
   \<and> lastPosition (updateMovingPlatform (5 * pi / 12) (moverCourse ! 1))
       = Some \<lparr>vec_x = 8.5, vec_y = - 4, vec_z = - 8.625\<rparr>"
proof -
  note m = moverCourse_eval
  have two: "moverCourse = [startPlatform, moverCourse ! 1]"
    using m by metis
  have adv: "movementProgress (moverCourse ! 1) + movementSpeed (moverCourse ! 1) * (5 * pi / 12) * 60
               = pi / 2"
    using m by simp
  have s: "sin (movementProgress (moverCourse ! 1)
                + movementSpeed (moverCourse ! 1) * (5 * pi / 12) * 60) = 1"
    by (simp only: adv sin_pi_half)
  have moving: "isMovingPlatform (moverCourse ! 1)"
    and horizontal: "movementType (moverCourse ! 1) = Some Horizontal"
    using m by simp_all
  have u: "updateMovingPlatforms (5 * pi / 12) moverCourse
             = [startPlatform, updateMovingPlatform (5 * pi / 12) (moverCourse ! 1)]"
    by (subst two) (simp add: updateMovingPlatforms_def updateMovingPlatform_def startPlatform_def)
  have pos: "position (updateMovingPlatform (5 * pi / 12) (moverCourse ! 1))
       = \<lparr>vec_x = 18.5, vec_y = - 4, vec_z = - 8.625\<rparr>"
    using updateMovingPlatform_horizontal [OF moving horizontal, of "5 * pi / 12"] s m by simp
  have lastp: "lastPosition (updateMovingPlatform (5 * pi / 12) (moverCourse ! 1))
       = Some \<lparr>vec_x = 8.5, vec_y = - 4, vec_z = - 8.625\<rparr>"
    using updateMovingPlatform_cache [OF moving, of "5 * pi / 12"] m by simp
  have shape: "\<not> isRoundPlatform (updateMovingPlatform (5 * pi / 12) (moverCourse ! 1))"
    "width (updateMovingPlatform (5 * pi / 12) (moverCourse ! 1)) = 8"
    "depth (updateMovingPlatform (5 * pi / 12) (moverCourse ! 1)) = 8"
    using m by (simp_all add: updateMovingPlatform_def Let_def)
  show ?thesis
    using u pos lastp shape by blast
qed

text \<open>
  Claim C7 says that on the tick of the platform update a ball resting on the moving
  platform has the platform's position delta added to its own position.  In the loop
  \<open>updateBallPosition\<close> runs before \<open>updateMovingPlatforms\<close>, so the delta of one update
  reaches the ball in the next call of \<open>updateBallPosition\<close>, and only if that call still
  finds the ball on the platform.  On the course of the start platform and a generated
  8 by 8 horizontal mover at phase 0, a ball rests on the middle of the mover, at x 8.5.
  The riding block that runs before the update finds the platform where it was cached
  and leaves the ball's x at 8.5.  An update that advances the phase by \<open>pi / 2\<close> then
  moves the platform by its range, 10, from under the ball: the ball is found on no
  platform, the riding block leaves it where it is, and the next \<open>updateBallPosition\<close>
  keeps its x at 8.5.
\<close>

theorem moving_platform_leaves_ball_counterexample:
  "isMovingPlatform (moverCourse ! 1) \<and> movementType (moverCourse ! 1) = Some Horizontal
   \<and> movementProgress (moverCourse ! 1) = 0
   \<and> movementSpeed (moverCourse ! 1) * (5 * pi / 12) * 60 = pi / 2
   \<and> getCurrentPlatform moverCourse (ballPosition ballOnSecondPlatform)
        (ballVelocity ballOnSecondPlatform) = Some (moverCourse ! 1)
   \<and> position (moverCourse ! 1) = \<lparr>vec_x = 8.5, vec_y = - 4, vec_z = - 8.625\<rparr>
   \<and> vec_x (ballPosition (rideMovingPlatform True moverCourse ballOnSecondPlatform)) = 8.5
   \<and> position (updateMovingPlatforms (5 * pi / 12) moverCourse ! 1)
       = \<lparr>vec_x = 18.5, vec_y = - 4, vec_z = - 8.625\<rparr>
   \<and> lastPosition (updateMovingPlatforms (5 * pi / 12) moverCourse ! 1)
       = Some \<lparr>vec_x = 8.5, vec_y = - 4, vec_z = - 8.625\<rparr>
   \<and> \<not> isOnPlatform (updateMovingPlatforms (5 * pi / 12) moverCourse) ballOnSecondPlatform
   \<and> rideMovingPlatform True (updateMovingPlatforms (5 * pi / 12) moverCourse)
        ballOnSecondPlatform = ballOnSecondPlatform
   \<and> vec_x (ballPosition ballOnSecondPlatform) = 8.5
   \<and> vec_x (ballPosition
        (updateBallPosition noKeys (1 / 60) 0.15 False 0
           (isOnPlatform (updateMovingPlatforms (5 * pi / 12) moverCourse) ballOnSecondPlatform)
           (updateMovingPlatforms (5 * pi / 12) moverCourse) ballOnSecondPlatform)) = 8.5"
proof -
  note m = moverCourse_eval
  note u = movedMover_eval
  have two: "moverCourse = [startPlatform, moverCourse ! 1]"
    using m by metis
  have before: "getCurrentPlatform moverCourse (ballPosition ballOnSecondPlatform)
        (ballVelocity ballOnSecondPlatform) = Some (moverCourse ! 1)"
    using m
    by (subst two)
       (simp add: collisionDetected_def ballOnSecondPlatform_def initialBall_def startPlatform_def)
  have nth: "updateMovingPlatforms (5 * pi / 12) moverCourse ! 1
               = updateMovingPlatform (5 * pi / 12) (moverCourse ! 1)"
    by (simp add: conjunct1 [OF u])
  have after: "getCurrentPlatform (updateMovingPlatforms (5 * pi / 12) moverCourse)
        (ballPosition ballOnSecondPlatform) (ballVelocity ballOnSecondPlatform) = None"
    using conjunct2 [OF u]
    by (simp add: conjunct1 [OF u] collisionDetected_def ballOnSecondPlatform_def initialBall_def
          startPlatform_def)
  have same: "vec_x (ballPosition (rideMovingPlatform True moverCourse ballOnSecondPlatform)) = 8.5"
    using before m by (simp add: rideMovingPlatform_def Let_def ballOnSecondPlatform_def)
  have off: "\<not> isOnPlatform (updateMovingPlatforms (5 * pi / 12) moverCourse) ballOnSecondPlatform"
    using after by (simp add: isOnPlatform_iff)
  have ride: "rideMovingPlatform True (updateMovingPlatforms (5 * pi / 12) moverCourse)
        ballOnSecondPlatform = ballOnSecondPlatform"
    using after by (simp add: rideMovingPlatform_def)
  have x0: "vec_x (ballPosition ballOnSecondPlatform) = 8.5"
    by (simp add: ballOnSecondPlatform_def)
  have x1: "vec_x (ballPosition
        (updateBallPosition noKeys (1 / 60) 0.15 False 0
           (isOnPlatform (updateMovingPlatforms (5 * pi / 12) moverCourse) ballOnSecondPlatform)
           (updateMovingPlatforms (5 * pi / 12) moverCourse) ballOnSecondPlatform)) = 8.5"
    using off
    by (simp add: updateBallPosition_def rideMovingPlatform_def detectAirEntry_def
          integrateMotion_def Let_def noKeys_def clamp_def ballOnSecondPlatform_def initialBall_def)
  have adv: "movementSpeed (moverCourse ! 1) * (5 * pi / 12) * 60 = pi / 2"
    using m by simp
  have moved: "position (updateMovingPlatforms (5 * pi / 12) moverCourse ! 1)
       = \<lparr>vec_x = 18.5, vec_y = - 4, vec_z = - 8.625\<rparr>"
    "lastPosition (updateMovingPlatforms (5 * pi / 12) moverCourse ! 1)
       = Some \<lparr>vec_x = 8.5, vec_y = - 4, vec_z = - 8.625\<rparr>"
    using conjunct2 [OF u] by (simp_all only: nth)
  show ?thesis
    using m moved before same off ride x0 x1 adv by blast
qed

text \<open>
  Claim C7 as amended.  For the moving platform at index \<open>i\<close>, \<open>updateMovingPlatforms\<close>
  caches the position it had as \<open>lastPosition\<close> and advances the phase by
  \<open>movementSpeed * deltaTime * 60\<close>; a horizontally moving platform gets
  \<open>x = originalPosition.x + movementRange * sin phase\<close> and keeps y and z, so that a phase
  advancing from 0 by \<open>pi / 2\<close> puts it exactly the range away from its anchor.  A ball
  that \<open>getCurrentPlatform\<close> still finds on that platform at its moved position has
  exactly the platform's position minus its \<open>lastPosition\<close> added to its position by the
  riding block of the call of \<open>updateBallPosition\<close> that follows the update; that call's
  own motion comes on top of it.
\<close>

theorem moving_platform_carries_ball:
  assumes "i < length ps" and "isMovingPlatform (ps ! i)"
  shows "let p = ps ! i; ps' = updateMovingPlatforms dt ps; p' = ps' ! i in
     lastPosition p' = Some (position p)
   \<and> movementProgress p' = movementProgress p + movementSpeed p * dt * 60
   \<and> (movementType p = Some Horizontal \<longrightarrow>
        position p' = (position p)\<lparr>vec_x := vec_x (originalPosition p)
                                          + movementRange p * sin (movementProgress p')\<rparr>
        \<and> (movementProgress p = 0 \<and> movementSpeed p * dt * 60 = pi / 2 \<longrightarrow>
             vec_x (position p') - vec_x (originalPosition p) = movementRange p))
   \<and> (getCurrentPlatform ps' (ballPosition b) (ballVelocity b) = Some p' \<longrightarrow>
        ballPosition (rideMovingPlatform True ps' b) =
          \<lparr>vec_x = vec_x (ballPosition b) + (vec_x (position p') - vec_x (position p)),
           vec_y = vec_y (ballPosition b) + (vec_y (position p') - vec_y (position p)),
           vec_z = vec_z (ballPosition b) + (vec_z (position p') - vec_z (position p))\<rparr>
        \<and> isOnPlatform ps' b
        \<and> (let b' = updateBallPosition ks dt' speed ja jf (isOnPlatform ps' b) ps' b in
             ballPosition b' =
               \<lparr>vec_x = vec_x (ballPosition b) + (vec_x (position p') - vec_x (position p))
                         + vec_x (ballVelocity b') * dt' * 60,
                vec_y = vec_y (ballPosition b) + (vec_y (position p') - vec_y (position p))
                         + vec_y (ballVelocity b') * dt' * 60,
                vec_z = vec_z (ballPosition b) + (vec_z (position p') - vec_z (position p))
                         - speed * dt' * 60\<rparr>))"
proof -
  let ?p = "ps ! i"
  let ?ps' = "updateMovingPlatforms dt ps"
  let ?p' = "?ps' ! i"
  have p': "?p' = updateMovingPlatform dt ?p"
    using assms(1) by (simp add: updateMovingPlatforms_def)
  note cache = updateMovingPlatform_cache [OF assms(2), of dt]
  have a: "lastPosition ?p' = Some (position ?p)"
    and b: "movementProgress ?p' = movementProgress ?p + movementSpeed ?p * dt * 60"
    and m: "isMovingPlatform ?p'"
    using cache p' by simp_all
  have c: "movementType ?p = Some Horizontal \<longrightarrow>
        position ?p' = (position ?p)\<lparr>vec_x := vec_x (originalPosition ?p)
                                            + movementRange ?p * sin (movementProgress ?p')\<rparr>
        \<and> (movementProgress ?p = 0 \<and> movementSpeed ?p * dt * 60 = pi / 2 \<longrightarrow>
             vec_x (position ?p') - vec_x (originalPosition ?p) = movementRange ?p)"
  proof (intro impI conjI)
    assume h: "movementType ?p = Some Horizontal"
    show pos: "position ?p' = (position ?p)\<lparr>vec_x := vec_x (originalPosition ?p)
                                            + movementRange ?p * sin (movementProgress ?p')\<rparr>"
      using updateMovingPlatform_horizontal [OF assms(2) h, of dt] p' b by simp
    assume q: "movementProgress ?p = 0 \<and> movementSpeed ?p * dt * 60 = pi / 2"
    have "movementProgress ?p' = pi / 2"
      using b q by simp
    then have "sin (movementProgress ?p') = 1"
      by (simp only: sin_pi_half)
    then show "vec_x (position ?p') - vec_x (originalPosition ?p) = movementRange ?p"
      using pos by simp
  qed
  have d: "getCurrentPlatform ?ps' (ballPosition b) (ballVelocity b) = Some ?p' \<longrightarrow>
        ballPosition (rideMovingPlatform True ?ps' b) =
          \<lparr>vec_x = vec_x (ballPosition b) + (vec_x (position ?p') - vec_x (position ?p)),
           vec_y = vec_y (ballPosition b) + (vec_y (position ?p') - vec_y (position ?p)),
           vec_z = vec_z (ballPosition b) + (vec_z (position ?p') - vec_z (position ?p))\<rparr>"
    using rideMovingPlatform_delta [OF _ m a] by blast
  have e: "getCurrentPlatform ?ps' (ballPosition b) (ballVelocity b) = Some ?p' \<longrightarrow>
        isOnPlatform ?ps' b
        \<and> (let b' = updateBallPosition ks dt' speed ja jf (isOnPlatform ?ps' b) ?ps' b in
             ballPosition b' =
               \<lparr>vec_x = vec_x (ballPosition b) + (vec_x (position ?p') - vec_x (position ?p))
                         + vec_x (ballVelocity b') * dt' * 60,
                vec_y = vec_y (ballPosition b) + (vec_y (position ?p') - vec_y (position ?p))
                         + vec_y (ballVelocity b') * dt' * 60,
                vec_z = vec_z (ballPosition b) + (vec_z (position ?p') - vec_z (position ?p))
                         - speed * dt' * 60\<rparr>)"
  proof (intro impI conjI)
    assume g: "getCurrentPlatform ?ps' (ballPosition b) (ballVelocity b) = Some ?p'"
    then show on: "isOnPlatform ?ps' b"
      by (simp add: isOnPlatform_iff)
    let ?b1 = "detectAirEntry True b"
    have g1: "getCurrentPlatform ?ps' (ballPosition ?b1) (ballVelocity ?b1) = Some ?p'"
      using g by (simp add: detectAirEntry_motion)
    have "ballPosition (rideMovingPlatform True ?ps' ?b1) =
          \<lparr>vec_x = vec_x (ballPosition b) + (vec_x (position ?p') - vec_x (position ?p)),
           vec_y = vec_y (ballPosition b) + (vec_y (position ?p') - vec_y (position ?p)),
           vec_z = vec_z (ballPosition b) + (vec_z (position ?p') - vec_z (position ?p))\<rparr>"
      using rideMovingPlatform_delta [OF g1 m a] by (simp add: detectAirEntry_motion)
    then show "let b' = updateBallPosition ks dt' speed ja jf (isOnPlatform ?ps' b) ?ps' b in
             ballPosition b' =
               \<lparr>vec_x = vec_x (ballPosition b) + (vec_x (position ?p') - vec_x (position ?p))
                         + vec_x (ballVelocity b') * dt' * 60,
                vec_y = vec_y (ballPosition b) + (vec_y (position ?p') - vec_y (position ?p))
                         + vec_y (ballVelocity b') * dt' * 60,
                vec_z = vec_z (ballPosition b) + (vec_z (position ?p') - vec_z (position ?p))
                         - speed * dt' * 60\<rparr>"
      unfolding Let_def updateBallPosition_def using on
      by (subst integrateMotion_position) simp
  qed
  show ?thesis
    unfolding Let_def using a b c d e unfolding Let_def by blast
qed

theorem moving_platform_carries_ball_witness:
  "0 < length [horizontalMover] \<and> isMovingPlatform ([horizontalMover] ! 0)
   \<and> movementProgress (updateMovingPlatforms (5 * pi / 12) [horizontalMover] ! 0) = pi / 2
   \<and> lastPosition (updateMovingPlatforms (5 * pi / 12) [horizontalMover] ! 0)
       = Some \<lparr>vec_x = 0, vec_y = 0, vec_z = 0\<rparr>
   \<and> position (updateMovingPlatforms (5 * pi / 12) [horizontalMover] ! 0)
       = \<lparr>vec_x = 10, vec_y = 0, vec_z = 0\<rparr>
   \<and> ballPosition (rideMovingPlatform True (updateMovingPlatforms (5 * pi / 12) [horizontalMover])
        restingBall) = \<lparr>vec_x = 10, vec_y = 1.5, vec_z = 0\<rparr>"
proof -
  have h1: "0 < length [horizontalMover]"
    by simp
  have h2: "isMovingPlatform ([horizontalMover] ! 0)"
    by (simp add: horizontalMover_def)
  have adv: "movementSpeed horizontalMover * (5 * pi / 12) * 60 = pi / 2"
    by (simp add: horizontalMover_def PLATFORM_MOVEMENT_def)
  have fields: "movementType horizontalMover = Some Horizontal"
    "movementProgress horizontalMover = 0" "movementRange horizontalMover = 10"
    "position horizontalMover = \<lparr>vec_x = 0, vec_y = 0, vec_z = 0\<rparr>"
    "originalPosition horizontalMover = \<lparr>vec_x = 0, vec_y = 0, vec_z = 0\<rparr>"
    by (simp_all add: horizontalMover_def startPlatform_def PLATFORM_MOVEMENT_def)
  note inst = moving_platform_carries_ball [OF h1 h2, of "5 * pi / 12" restingBall, unfolded Let_def]
  have prog: "movementProgress (updateMovingPlatforms (5 * pi / 12) [horizontalMover] ! 0) = pi / 2"
    using inst adv fields by simp
  have lastp: "lastPosition (updateMovingPlatforms (5 * pi / 12) [horizontalMover] ! 0)
       = Some \<lparr>vec_x = 0, vec_y = 0, vec_z = 0\<rparr>"
    using inst fields by simp
  have pos: "position (updateMovingPlatforms (5 * pi / 12) [horizontalMover] ! 0)
       = \<lparr>vec_x = 10, vec_y = 0, vec_z = 0\<rparr>"
    using inst adv fields prog by simp
  have shape: "\<not> isRoundPlatform (updateMovingPlatforms (5 * pi / 12) [horizontalMover] ! 0)"
    "width (updateMovingPlatforms (5 * pi / 12) [horizontalMover] ! 0) = 30"
    "depth (updateMovingPlatforms (5 * pi / 12) [horizontalMover] ! 0) = 50"
    by (simp_all add: updateMovingPlatforms_def updateMovingPlatform_def Let_def
          horizontalMover_def startPlatform_def)
  have hit: "getCurrentPlatform (updateMovingPlatforms (5 * pi / 12) [horizontalMover])
               (ballPosition restingBall) (ballVelocity restingBall)
             = Some (updateMovingPlatforms (5 * pi / 12) [horizontalMover] ! 0)"
    using pos shape
    by (simp add: updateMovingPlatforms_def collisionDetected_def restingBall_def initialBall_def)
  show ?thesis
    using h1 h2 prog lastp pos inst hit fields
    by (simp add: restingBall_def initialBall_def)
qed

section \<open>Jetpack\<close>

lemmas ball_defs =
  onKeyDownJump_def jumpBranch_def jump_def updateBallPosition_def detectAirEntry_def
  rideMovingPlatform_def integrateMotion_def handlePlatformCollisions_def
  handleCollisionInfo_def applyPlatformEffects_def updateJetpack_def addExtraJumps_def resetBallState_def
  initialBall_def onKeyUpSpace_def applyJumpForce_def isOnPlatform_def

lemma reachable_run: "reachable b \<Longrightarrow> reachable (run es b)"
  by (induction es arbitrary: b) (simp_all add: reachable_step)

lemma jumpedBall_eval:
  "isJumping jumpedBall \<and> \<not> hasDoubleJumped jumpedBall \<and> airEntryMethod jumpedBall = ''jumped''
   \<and> wasOnPlatform jumpedBall \<and> extraJumps jumpedBall = 0
   \<and> ballVelocity jumpedBall = \<lparr>vec_x = 0, vec_y = 0.3, vec_z = 0\<rparr>
   \<and> ballPosition jumpedBall = \<lparr>vec_x = 0, vec_y = 1.5, vec_z = - 0.15\<rparr>"
  by (simp add: jumpedBall_def jumpFromStart_def ball_defs noKeys_def startPlatform_def
        collisionDetected_def GAME_SETTINGS_def clamp_def Let_def)

lemma doubleJumpedBall_eval:
  "isJumping doubleJumpedBall \<and> hasDoubleJumped doubleJumpedBall
   \<and> airEntryMethod doubleJumpedBall = ''jumped'' \<and> wasOnPlatform doubleJumpedBall
   \<and> extraJumps doubleJumpedBall = 0
   \<and> ballVelocity doubleJumpedBall = \<lparr>vec_x = 0, vec_y = 0.3, vec_z = 0\<rparr>
   \<and> ballPosition doubleJumpedBall = \<lparr>vec_x = 0, vec_y = 1.5, vec_z = - 0.15\<rparr>"
  using jumpedBall_eval
  by (simp add: doubleJumpedBall_def ball_defs startPlatform_def collisionDetected_def
        GAME_SETTINGS_def Let_def)






section \<open>The jump chain\<close>

lemma integrateMotion_flags:
  "isJumping (integrateMotion ks dt speed ja jf onp b) = isJumping b
   \<and> hasDoubleJumped (integrateMotion ks dt speed ja jf onp b) = hasDoubleJumped b
   \<and> airEntryMethod (integrateMotion ks dt speed ja jf onp b) = airEntryMethod b
   \<and> wasOnPlatform (integrateMotion ks dt speed ja jf onp b) = wasOnPlatform b
   \<and> extraJumps (integrateMotion ks dt speed ja jf onp b) = extraJumps b"
  by (simp add: integrateMotion_def Let_def)

lemma rideMovingPlatform_flags:
  "isJumping (rideMovingPlatform onp ps b) = isJumping b
   \<and> hasDoubleJumped (rideMovingPlatform onp ps b) = hasDoubleJumped b
   \<and> airEntryMethod (rideMovingPlatform onp ps b) = airEntryMethod b
   \<and> wasOnPlatform (rideMovingPlatform onp ps b) = wasOnPlatform b
   \<and> extraJumps (rideMovingPlatform onp ps b) = extraJumps b"
  by (simp add: rideMovingPlatform_def Let_def split: option.splits)

lemma updateBallPosition_flags:
  "isJumping (updateBallPosition ks dt speed ja jf onp ps b) = isJumping b
   \<and> hasDoubleJumped (updateBallPosition ks dt speed ja jf onp ps b) =
       (hasDoubleJumped b \<and> \<not> (wasOnPlatform b \<and> \<not> onp \<and> \<not> isJumping b))
   \<and> airEntryMethod (updateBallPosition ks dt speed ja jf onp ps b) =
       (if wasOnPlatform b \<and> \<not> onp \<and> \<not> isJumping b
        then (if \<bar>vec_x (ballVelocity b)\<bar> > 0.01 then ''rolled'' else ''fell'')
        else airEntryMethod b)
   \<and> wasOnPlatform (updateBallPosition ks dt speed ja jf onp ps b) = onp
   \<and> extraJumps (updateBallPosition ks dt speed ja jf onp ps b) = extraJumps b"
  by (simp add: updateBallPosition_def integrateMotion_flags rideMovingPlatform_flags
        detectAirEntry_def Let_def)

lemma spent_step:
  assumes "spent b" "\<not> grounded e b" "e \<noteq> Restart" "\<not> burnsLastFuel e"
  shows "spent (step e b) \<and> \<not> grantsDoubleJump e b"
proof (cases e)
  case (JumpInput k ps)
  then show ?thesis
    using assms by (auto simp add: spent_def onKeyDownJump_def jumpBranch_def jump_def Let_def)
next
  case (SpaceReleased k)
  then show ?thesis
    using assms by (simp add: spent_def onKeyUpSpace_def applyJumpForce_def)
next
  case (PhysicsTick ks dt speed ja jf ps)
  then show ?thesis
    using assms by (auto simp add: spent_def updateBallPosition_flags)
next
  case (Collisions ps speed)
  then show ?thesis
    using assms
    by (simp add: spent_def handlePlatformCollisions_def handleCollisionInfo_def
          applyPlatformEffects_def isOnPlatform_def Let_def)
next
  case (JetpackUpdate c a f)
  then show ?thesis
    using assms by (auto simp add: spent_def updateJetpack_def Let_def)
next
  case ExtraJumpPickup
  then show ?thesis
    using assms by (simp add: spent_def addExtraJumps_def)
next
  case (Moved p v)
  then show ?thesis
    using assms by (simp add: spent_def)
next
  case Restart
  then show ?thesis
    using assms by simp
qed

lemma spent_run:
  "spent b \<Longrightarrow> airborneRun es b \<Longrightarrow> noLastFuelBurn es \<Longrightarrow>
     spent (run es b) \<and> doubleJumps es b = 0"
proof (induction es arbitrary: b)
  case Nil
  then show ?case by simp
next
  case (Cons e es)
  from Cons.prems have g: "\<not> grounded e b" "e \<noteq> Restart" "\<not> burnsLastFuel e"
    and rest: "airborneRun es (step e b)" "noLastFuelBurn es"
    by simp_all
  have s: "spent (step e b) \<and> \<not> grantsDoubleJump e b"
    using spent_step [OF Cons.prems(1) g] .
  then show ?case
    using Cons.IH [OF _ rest] by simp
qed

lemma spent_after_double_jump:
  assumes "grantsDoubleJump e b" "\<not> isJumping b \<longrightarrow> \<not> wasOnPlatform b"
  shows "spent (step e b)"
proof (cases e)
  case (JumpInput k ps)
  then show ?thesis
    using assms
    by (auto simp add: spent_def onKeyDownJump_def jumpBranch_def jump_def split: if_splits)
qed (use assms in simp_all)

text \<open>
  Claim C4 says that once an in-air jump has set the double-jumped flag nothing clears it
  before the ball lands, so that one airborne episode holds at most one double jump.  The
  jetpack does clear it: after a jump from the start platform and a double jump in the
  air, a jetpack update that burns the last unit of fuel (fuel picked up in the air and
  burnt down) clears the flag while the ball is still in the air, and the next jump input
  is answered with a second double jump.
\<close>

theorem second_double_jump_counterexample:
  "grantsDoubleJump (JumpInput False [startPlatform]) jumpedBall
   \<and> hasDoubleJumped (step (JumpInput False [startPlatform]) jumpedBall)
   \<and> airborneRun [JetpackUpdate True True 1, JumpInput False [startPlatform]]
        (step (JumpInput False [startPlatform]) jumpedBall)
   \<and> \<not> hasDoubleJumped
        (step (JetpackUpdate True True 1) (step (JumpInput False [startPlatform]) jumpedBall))
   \<and> doubleJumps [JetpackUpdate True True 1, JumpInput False [startPlatform]]
        (step (JumpInput False [startPlatform]) jumpedBall) = 1"
  using jumpedBall_eval
  by (simp add: ball_defs startPlatform_def collisionDetected_def GAME_SETTINGS_def Let_def)

text \<open>
  Claim C4 as amended.  When a jump input in the air is answered with a double jump, on a
  ball that is jumping or was off every platform at the last tick, then through every
  run of later events that finds the ball on no platform, does not restart the game and
  has no jetpack update burning the last unit of fuel, the double-jumped flag stays set
  and no further double jump is granted.
\<close>

theorem one_double_jump_per_flight:
  assumes "grantsDoubleJump e0 b0" and "\<not> isJumping b0 \<longrightarrow> \<not> wasOnPlatform b0"
    and "airborneRun es (step e0 b0)" and "noLastFuelBurn es"
  shows "hasDoubleJumped (step e0 b0) \<and> hasDoubleJumped (run es (step e0 b0))
         \<and> doubleJumps es (step e0 b0) = 0"
  using spent_run [OF spent_after_double_jump [OF assms(1,2)] assms(3,4)]
        spent_after_double_jump [OF assms(1,2)]
  by (simp add: spent_def)

theorem one_double_jump_per_flight_witness:
  "grantsDoubleJump (JumpInput False [startPlatform]) jumpedBall
   \<and> isJumping jumpedBall
   \<and> airborneRun [PhysicsTick noKeys (1 / 60) 0.15 False 0 [startPlatform],
                   JumpInput False [startPlatform], JetpackUpdate True True 2, ExtraJumpPickup]
        (step (JumpInput False [startPlatform]) jumpedBall)
   \<and> noLastFuelBurn [PhysicsTick noKeys (1 / 60) 0.15 False 0 [startPlatform],
                   JumpInput False [startPlatform], JetpackUpdate True True 2, ExtraJumpPickup]
   \<and> hasDoubleJumped
        (run [PhysicsTick noKeys (1 / 60) 0.15 False 0 [startPlatform],
              JumpInput False [startPlatform], JetpackUpdate True True 2, ExtraJumpPickup]
           (step (JumpInput False [startPlatform]) jumpedBall))
   \<and> doubleJumps [PhysicsTick noKeys (1 / 60) 0.15 False 0 [startPlatform],
                   JumpInput False [startPlatform], JetpackUpdate True True 2, ExtraJumpPickup]
        (step (JumpInput False [startPlatform]) jumpedBall) = 0"
proof -
  let ?es = "[PhysicsTick noKeys (1 / 60) 0.15 False 0 [startPlatform],
              JumpInput False [startPlatform], JetpackUpdate True True 2, ExtraJumpPickup]"
  have h1: "grantsDoubleJump (JumpInput False [startPlatform]) jumpedBall"
    using jumpedBall_eval
    by (simp add: ball_defs startPlatform_def collisionDetected_def)
  have h2: "\<not> isJumping jumpedBall \<longrightarrow> \<not> wasOnPlatform jumpedBall"
    using jumpedBall_eval by simp
  have h3: "airborneRun ?es (step (JumpInput False [startPlatform]) jumpedBall)"
    using jumpedBall_eval
    by (simp add: ball_defs startPlatform_def collisionDetected_def GAME_SETTINGS_def
          noKeys_def clamp_def Let_def)
  have h4: "noLastFuelBurn ?es"
    by simp
  have j: "isJumping jumpedBall"
    using jumpedBall_eval by simp
  show ?thesis
    using one_double_jump_per_flight [OF h1 h2 h3 h4] h1 h3 h4 j
    by blast
qed

text \<open>
  The hypothesis on the ball in the amended claim is needed.  A ball that was on a
  platform at the last tick and is bounced by a trampoline is not jumping; a double jump
  it makes before the next tick is forgotten by that tick, which takes the ball for
  fallen off: the run below stays in the air, has no jetpack update, and holds two double
  jumps.
\<close>

lemma double_jump_forgotten_after_bounce:
  "wasOnPlatform bouncedBall \<and> \<not> isJumping bouncedBall
   \<and> airEntryMethod bouncedBall = ''bounced''
   \<and> airborneRun
        [JumpInput False [startTrampoline],
         PhysicsTick noKeys (1 / 60) 0.175 False 0 [startTrampoline],
         JumpInput False [startTrampoline], JumpInput False [startTrampoline]] bouncedBall
   \<and> doubleJumps
        [JumpInput False [startTrampoline],
         PhysicsTick noKeys (1 / 60) 0.175 False 0 [startTrampoline],
         JumpInput False [startTrampoline], JumpInput False [startTrampoline]] bouncedBall = 2"
  by (simp add: bouncedBall_def startTrampoline_def ball_defs startPlatform_def
        collisionDetected_def GAME_SETTINGS_def noKeys_def clamp_def Let_def)


lemma reachable_inv:
  "reachable b \<Longrightarrow>
     0 \<le> extraJumps b \<and> (hasDoubleJumped b \<and> airEntryMethod b = ''fell'' \<longrightarrow> isJumping b)"
proof (induction rule: reachable.induct)
  case reachable_initial
  show ?case by (simp add: initialBall_def)
next
  case (reachable_step b e)
  show ?case
  proof (cases e)
    case (JumpInput k ps)
    then show ?thesis
      using reachable_step.IH
      by (auto simp add: onKeyDownJump_def jumpBranch_def jump_def Let_def)
  next
    case (SpaceReleased k)
    then show ?thesis
      using reachable_step.IH by (simp add: onKeyUpSpace_def applyJumpForce_def)
  next
    case (PhysicsTick ks dt speed ja jf ps)
    then show ?thesis
      using reachable_step.IH by (auto simp add: updateBallPosition_flags)
  next
    case (Collisions ps speed)
    then show ?thesis
      using reachable_step.IH
      by (auto simp add: handlePlatformCollisions_def handleCollisionInfo_def
            applyPlatformEffects_def Let_def split: option.splits bounce.splits)
  next
    case (JetpackUpdate c a f)
    then show ?thesis
      using reachable_step.IH by (auto simp add: updateJetpack_def Let_def)
  next
    case ExtraJumpPickup
    then show ?thesis
      using reachable_step.IH by (simp add: addExtraJumps_def)
  next
    case (Moved p v)
    then show ?thesis
      using reachable_step.IH by simp
  next
    case Restart
    then show ?thesis
      by (simp add: resetBallState_def initialBall_def)
  qed
qed

lemma reachable_doubleJumpedBall: "reachable doubleJumpedBall"
  unfolding doubleJumpedBall_def jumpedBall_def
  by (intro reachable_step reachable_run reachable_initial)

lemma bouncedBall_eval:
  "\<not> isJumping bouncedBall \<and> \<not> hasDoubleJumped bouncedBall
   \<and> airEntryMethod bouncedBall = ''bounced'' \<and> wasOnPlatform bouncedBall
   \<and> extraJumps bouncedBall = 0
   \<and> ballVelocity bouncedBall = \<lparr>vec_x = 0, vec_y = 0.6, vec_z = - 0.1\<rparr>"
  by (simp add: bouncedBall_def startTrampoline_def ball_defs startPlatform_def
        collisionDetected_def GAME_SETTINGS_def noKeys_def clamp_def Let_def)

lemma spentOnPlatform_eval:
  "\<not> isJumping spentOnPlatform \<and> hasDoubleJumped spentOnPlatform
   \<and> extraJumps spentOnPlatform = 0
   \<and> ballPosition spentOnPlatform = \<lparr>vec_x = 0, vec_y = 1.5, vec_z = 0\<rparr>
   \<and> ballVelocity spentOnPlatform = \<lparr>vec_x = 0, vec_y = 0, vec_z = 0\<rparr>"
  using bouncedBall_eval
  by (simp add: spentOnPlatform_def startTrampoline_def ball_defs startPlatform_def
        collisionDetected_def GAME_SETTINGS_def Let_def)

lemma reachable_spentOnPlatform: "reachable spentOnPlatform"
  unfolding spentOnPlatform_def bouncedBall_def
  by (intro reachable_run reachable_initial)

text \<open>
  Claim C8 says that a jump input with the double jump used and no extra-jump credit left
  changes nothing.  The handler's first branch asks only whether the ball is on a
  platform and not jumping.  A ball that was bounced, double jumped in the air and was
  then set down at rest on the trampoline has the double-jumped flag set and no credit;
  a jump input there is answered with a first jump, which sets the jumping flag, clears
  the double-jumped flag and sets the vertical velocity to the jump force.
\<close>

theorem exhausted_chain_on_platform_counterexample:
  "reachable spentOnPlatform \<and> hasDoubleJumped spentOnPlatform
   \<and> extraJumps spentOnPlatform = 0
   \<and> isOnPlatform [startTrampoline] spentOnPlatform
   \<and> jumpBranch False (isOnPlatform [startTrampoline] spentOnPlatform) spentOnPlatform = FirstJump
   \<and> step (JumpInput False [startTrampoline]) spentOnPlatform \<noteq> spentOnPlatform
   \<and> isJumping (step (JumpInput False [startTrampoline]) spentOnPlatform)
   \<and> \<not> hasDoubleJumped (step (JumpInput False [startTrampoline]) spentOnPlatform)
   \<and> vec_y (ballVelocity (step (JumpInput False [startTrampoline]) spentOnPlatform)) = 0.3"
proof -
  note e = spentOnPlatform_eval
  have on: "isOnPlatform [startTrampoline] spentOnPlatform"
    using e by (simp add: isOnPlatform_def collisionDetected_def startTrampoline_def
          startPlatform_def)
  have br: "jumpBranch False (isOnPlatform [startTrampoline] spentOnPlatform) spentOnPlatform
              = FirstJump"
    using e on by (simp add: jumpBranch_def)
  have j: "isJumping (step (JumpInput False [startTrampoline]) spentOnPlatform)"
    "\<not> hasDoubleJumped (step (JumpInput False [startTrampoline]) spentOnPlatform)"
    "vec_y (ballVelocity (step (JumpInput False [startTrampoline]) spentOnPlatform)) = 0.3"
    using br by (simp_all add: onKeyDownJump_def jump_def Let_def GAME_SETTINGS_def)
  have ne: "step (JumpInput False [startTrampoline]) spentOnPlatform \<noteq> spentOnPlatform"
    using j(1) e by metis
  show ?thesis
    using reachable_spentOnPlatform e on br j ne by blast
qed

text \<open>
  Claim C8 as amended.  In every state the ball can reach: an extra jump lowers the credit
  by exactly 1, and the handler takes it only with a credit above 0; the credit is never
  negative, before or after a jump input; and a jump input with the double jump used and
  no credit left, given in the air or while the jumping flag is set, changes neither the
  ball nor \<open>keys.space\<close>.
\<close>

theorem extra_jump_credit:
  assumes "reachable b"
  shows "extraJumps (jump isDoubleJump True b) = extraJumps b - 1
       \<and> (jumpBranch keysSpace onPlat b = ExtraJump \<longrightarrow>
            0 < extraJumps b
            \<and> extraJumps (snd (onKeyDownJump keysSpace onPlat b)) = extraJumps b - 1)
       \<and> 0 \<le> extraJumps b
       \<and> 0 \<le> extraJumps (snd (onKeyDownJump keysSpace onPlat b))
       \<and> (hasDoubleJumped b \<and> extraJumps b = 0 \<and> (\<not> onPlat \<or> isJumping b) \<longrightarrow>
            onKeyDownJump keysSpace onPlat b = (keysSpace, b))"
  using reachable_inv [OF assms]
  by (auto simp add: onKeyDownJump_def jumpBranch_def jump_def Let_def)

theorem extra_jump_credit_witness:
  "reachable doubleJumpedBall \<and> hasDoubleJumped doubleJumpedBall
   \<and> extraJumps doubleJumpedBall = 0
   \<and> onKeyDownJump False False doubleJumpedBall = (False, doubleJumpedBall)
   \<and> reachable (step ExtraJumpPickup doubleJumpedBall)
   \<and> jumpBranch False False (step ExtraJumpPickup doubleJumpedBall) = ExtraJump
   \<and> extraJumps (step ExtraJumpPickup doubleJumpedBall) = 1
   \<and> extraJumps (snd (onKeyDownJump False False (step ExtraJumpPickup doubleJumpedBall))) = 0"
proof -
  have r1: "reachable doubleJumpedBall"
    by (rule reachable_doubleJumpedBall)
  have r2: "reachable (step ExtraJumpPickup doubleJumpedBall)"
    by (rule reachable_step [OF r1])
  have f: "hasDoubleJumped (step ExtraJumpPickup doubleJumpedBall)"
    "extraJumps (step ExtraJumpPickup doubleJumpedBall) = 1"
    "jumpBranch False False (step ExtraJumpPickup doubleJumpedBall) = ExtraJump"
    using doubleJumpedBall_eval by (simp_all add: addExtraJumps_def jumpBranch_def)
  have e: "hasDoubleJumped doubleJumpedBall" "extraJumps doubleJumpedBall = 0"
    using doubleJumpedBall_eval by simp_all
  have n: "onKeyDownJump False False doubleJumpedBall = (False, doubleJumpedBall)"
    using extra_jump_credit [OF r1, of False False False] e by blast
  have "extraJumps (snd (onKeyDownJump False False (step ExtraJumpPickup doubleJumpedBall)))
          = extraJumps (step ExtraJumpPickup doubleJumpedBall) - 1"
    using extra_jump_credit [OF r2, of False False False] f(3) by blast
  then have u: "extraJumps (snd (onKeyDownJump False False (step ExtraJumpPickup doubleJumpedBall))) = 0"
    using f(2) by simp
  show ?thesis
    using r1 r2 e n f u by blast
qed

end
